theory Spec2Isabelle
  imports Complex_Main "HOL-Library.Log_Nat"
begin

section \<open>The number type of the host language\<close>

text \<open>
  The sources are TypeScript; every \<^verbatim>\<open>number\<close> is an IEEE 754 binary64 value.
  A finite value is carried as the rational it denotes, the three special values are
  constructors. The sign of zero is not tracked: none of the functions below can
  tell \<^verbatim>\<open>-0\<close> from \<^verbatim>\<open>+0\<close> in what it returns (comparison, \<^verbatim>\<open>toFixed\<close> and
  \<^verbatim>\<open>toString\<close> treat both alike, and the only divisor used is a positive constant).
\<close>

datatype jsnum = NaN | PosInf | NegInf | Fin rat

definition pow2 :: "int \<Rightarrow> rat" where
  "pow2 e = (if 0 \<le> e then 2 ^ nat e else 1 / 2 ^ nat (- e))"

definition pow10 :: "int \<Rightarrow> rat" where
  "pow10 e = (if 0 \<le> e then 10 ^ nat e else 1 / 10 ^ nat (- e))"

text \<open>The binary exponent of a positive rational: \<open>2 ^ ilog2 x \<le> x < 2 ^ (ilog2 x + 1)\<close>.\<close>

definition ilog2 :: "rat \<Rightarrow> int" where
  "ilog2 x = (let (p, q) = quotient_of x; d = bitlen p - bitlen q
              in if pow2 d \<le> x then d else d - 1)"

definition round_half_even :: "rat \<Rightarrow> int" where
  "round_half_even y =
     (let f = \<lfloor>y\<rfloor>; r = y - of_int f
      in if r < 1 / 2 then f else if 1 / 2 < r then f + 1
         else if even f then f else f + 1)"

text \<open>
  Rounding of an exact result to binary64, round-to-nearest, ties to even: 53 significant
  bits, least exponent \<open>-1074\<close> (subnormals), overflow to infinity from \<open>2 ^ 1024\<close> on.
\<close>

definition fl :: "rat \<Rightarrow> jsnum" where
  "fl x =
     (if x = 0 then Fin 0
      else let a = \<bar>x\<bar>;
               e = max (- 1074) (ilog2 a - 52);
               v = of_int (round_half_even (a / pow2 e)) * pow2 e
           in if 2 ^ 1024 \<le> v then (if x < 0 then NegInf else PosInf)
              else Fin (if x < 0 then - v else v))"

definition isNaN :: "jsnum \<Rightarrow> bool" where
  "isNaN a = (a = NaN)"

text \<open>The relational operators; every comparison with \<^verbatim>\<open>NaN\<close> is false.\<close>

definition num_lt :: "jsnum \<Rightarrow> jsnum \<Rightarrow> bool" where
  "num_lt a b =
     (case (a, b) of
        (Fin x, Fin y) \<Rightarrow> x < y
      | (Fin x, PosInf) \<Rightarrow> True
      | (NegInf, Fin y) \<Rightarrow> True
      | (NegInf, PosInf) \<Rightarrow> True
      | _ \<Rightarrow> False)"

definition num_le :: "jsnum \<Rightarrow> jsnum \<Rightarrow> bool" where
  "num_le a b = (a \<noteq> NaN \<and> b \<noteq> NaN \<and> \<not> num_lt b a)"

definition num_gt :: "jsnum \<Rightarrow> jsnum \<Rightarrow> bool" where
  "num_gt a b = num_lt b a"

definition num_ge :: "jsnum \<Rightarrow> jsnum \<Rightarrow> bool" where
  "num_ge a b = num_le b a"

definition num_sign :: "jsnum \<Rightarrow> int" where
  "num_sign a = (case a of NaN \<Rightarrow> 0 | PosInf \<Rightarrow> 1 | NegInf \<Rightarrow> - 1 | Fin x \<Rightarrow> sgn \<lfloor>x\<rfloor> + sgn \<lceil>x\<rceil>)"

definition inf_of_sign :: "int \<Rightarrow> jsnum" where
  "inf_of_sign s = (if s = 0 then NaN else if 0 < s then PosInf else NegInf)"

definition num_mul :: "jsnum \<Rightarrow> jsnum \<Rightarrow> jsnum" where
  "num_mul a b =
     (if a = NaN \<or> b = NaN then NaN
      else case (a, b) of
             (Fin x, Fin y) \<Rightarrow> fl (x * y)
           | _ \<Rightarrow> inf_of_sign (num_sign a * num_sign b))"

definition num_div :: "jsnum \<Rightarrow> jsnum \<Rightarrow> jsnum" where
  "num_div a b =
     (if a = NaN \<or> b = NaN then NaN
      else case (a, b) of
             (Fin x, Fin y) \<Rightarrow> if y = 0 then inf_of_sign (num_sign a) else fl (x / y)
           | (Fin x, _) \<Rightarrow> Fin 0
           | (_, Fin y) \<Rightarrow> inf_of_sign (num_sign a * (if y < 0 then - 1 else 1))
           | _ \<Rightarrow> NaN)"

definition Math_floor :: "jsnum \<Rightarrow> jsnum" where
  "Math_floor a = (case a of Fin x \<Rightarrow> Fin (of_int \<lfloor>x\<rfloor>) | _ \<Rightarrow> a)"

definition Math_ceil :: "jsnum \<Rightarrow> jsnum" where
  "Math_ceil a = (case a of Fin x \<Rightarrow> Fin (of_int \<lceil>x\<rceil>) | _ \<Rightarrow> a)"

definition Math_max :: "jsnum \<Rightarrow> jsnum \<Rightarrow> jsnum" where
  "Math_max a b = (if a = NaN \<or> b = NaN then NaN else if num_lt a b then b else a)"


section \<open>Strings and numbers\<close>

text \<open>
  A string is a list of code units; the model covers code units below 256, one
  \<^typ>\<open>char\<close> each. The white space of the language in that range is TAB, LF, VT, FF, CR,
  SP and NBSP.
\<close>

definition isWhiteSpace :: "char \<Rightarrow> bool" where
  "isWhiteSpace c = ((of_char c :: nat) \<in> {9, 10, 11, 12, 13, 32, 160})"

definition isDigit :: "char \<Rightarrow> bool" where
  "isDigit c = (48 \<le> (of_char c :: nat) \<and> (of_char c :: nat) \<le> 57)"

definition trimStart :: "string \<Rightarrow> string" where
  "trimStart s = dropWhile isWhiteSpace s"

definition trim :: "string \<Rightarrow> string" where
  "trim s = rev (dropWhile isWhiteSpace (rev (dropWhile isWhiteSpace s)))"

definition digitsVal :: "string \<Rightarrow> nat" where
  "digitsVal ds = foldl (\<lambda>a c. 10 * a + (of_char c - 48)) 0 ds"

text \<open>The mathematical value of an unsigned literal, before rounding.\<close>

datatype mv = MInf | MFin rat

text \<open>
  \<^verbatim>\<open>ExponentPart\<close> at the head of the input: the exponent and the rest of the input. A
  missing or malformed exponent part consumes nothing.
\<close>

definition scanExponent :: "string \<Rightarrow> int \<times> string" where
  "scanExponent cs =
     (case cs of
        [] \<Rightarrow> (0, cs)
      | c # r \<Rightarrow>
          if c = CHR ''e'' \<or> c = CHR ''E'' then
            (let (sg, r1) =
                   (case r of
                      [] \<Rightarrow> (1, r)
                    | s # r' \<Rightarrow> if s = CHR ''+'' then (1, r')
                                else if s = CHR ''-'' then (- 1, r') else (1, r));
                 ds = takeWhile isDigit r1
             in if ds = [] then (0, cs)
                else (sg * int (digitsVal ds), dropWhile isDigit r1))
          else (0, cs))"

text \<open>
  The longest prefix that is a \<^verbatim>\<open>StrUnsignedDecimalLiteral\<close>
  (\<^verbatim>\<open>Infinity\<close>, \<^verbatim>\<open>digits . digits? exp?\<close>, \<^verbatim>\<open>. digits exp?\<close>, \<^verbatim>\<open>digits exp?\<close>): its
  value and the rest of the input, or \<open>None\<close> when no prefix is one.
\<close>

definition scanUnsigned :: "string \<Rightarrow> (mv \<times> string) option" where
  "scanUnsigned cs =
     (if take 8 cs = ''Infinity'' then Some (MInf, drop 8 cs)
      else let ip = takeWhile isDigit cs; r1 = dropWhile isDigit cs
           in case r1 of
                [] \<Rightarrow> if ip = [] then None else Some (MFin (of_nat (digitsVal ip)), [])
              | c # r2 \<Rightarrow>
                  if c = CHR ''.'' then
                    (let fp = takeWhile isDigit r2; r3 = dropWhile isDigit r2
                     in if ip = [] \<and> fp = [] then None
                        else let (e, r4) = scanExponent r3
                             in Some (MFin (of_nat (digitsVal (ip @ fp)) * pow10 (e - int (length fp))), r4))
                  else if ip = [] then None
                  else let (e, r4) = scanExponent r1
                       in Some (MFin (of_nat (digitsVal ip) * pow10 e), r4))"

text \<open>\<^verbatim>\<open>StrDecimalLiteral\<close>: an optional sign (\<open>True\<close> for minus) before the unsigned literal.\<close>

definition scanSigned :: "string \<Rightarrow> (bool \<times> mv \<times> string) option" where
  "scanSigned cs =
     (case cs of
        [] \<Rightarrow> None
      | c # r \<Rightarrow>
          if c = CHR ''+'' then map_option (\<lambda>(v, t). (False, v, t)) (scanUnsigned r)
          else if c = CHR ''-'' then map_option (\<lambda>(v, t). (True, v, t)) (scanUnsigned r)
          else map_option (\<lambda>(v, t). (False, v, t)) (scanUnsigned cs))"

definition roundMV :: "bool \<Rightarrow> mv \<Rightarrow> jsnum" where
  "roundMV neg v =
     (case v of
        MInf \<Rightarrow> if neg then NegInf else PosInf
      | MFin x \<Rightarrow> fl (if neg then - x else x))"

text \<open>
  \<^verbatim>\<open>parseFloat\<close>: leading white space is skipped, the longest prefix that is a decimal
  literal is converted, anything after it is ignored; \<^verbatim>\<open>NaN\<close> when there is no such
  prefix.
\<close>

definition parseFloat :: "string \<Rightarrow> jsnum" where
  "parseFloat s =
     (case scanSigned (trimStart s) of
        None \<Rightarrow> NaN
      | Some (neg, v, _) \<Rightarrow> roundMV neg v)"

text \<open>The value of a digit or letter as a digit of a radix up to 36.\<close>

definition radixDigit36 :: "char \<Rightarrow> nat option" where
  "radixDigit36 c =
     (let n = (of_char c :: nat)
      in if 48 \<le> n \<and> n \<le> 57 then Some (n - 48)
         else if 97 \<le> n \<and> n \<le> 122 then Some (n - 87)
         else if 65 \<le> n \<and> n \<le> 90 then Some (n - 55)
         else None)"

definition isRadixDigit :: "nat \<Rightarrow> char \<Rightarrow> bool" where
  "isRadixDigit b c = (case radixDigit36 c of None \<Rightarrow> False | Some d \<Rightarrow> d < b)"

definition radixDigitsVal :: "nat \<Rightarrow> string \<Rightarrow> nat" where
  "radixDigitsVal b ds =
     foldl (\<lambda>a c. b * a + (case radixDigit36 c of None \<Rightarrow> 0 | Some d \<Rightarrow> d)) 0 ds"

text \<open>\<^verbatim>\<open>0x\<close>, \<^verbatim>\<open>0o\<close> and \<^verbatim>\<open>0b\<close> literals, accepted by \<^verbatim>\<open>Number\<close> only.\<close>

definition radixVal :: "nat \<Rightarrow> string \<Rightarrow> nat option" where
  "radixVal b ds =
     (if ds \<noteq> [] \<and> list_all (isRadixDigit b) ds then Some (radixDigitsVal b ds) else None)"

definition nonDecimalLiteral :: "string \<Rightarrow> nat option" where
  "nonDecimalLiteral t =
     (case t of
        z # c # ds \<Rightarrow>
          if z \<noteq> CHR ''0'' then None
          else if c = CHR ''x'' \<or> c = CHR ''X'' then radixVal 16 ds
          else if c = CHR ''o'' \<or> c = CHR ''O'' then radixVal 8 ds
          else if c = CHR ''b'' \<or> c = CHR ''B'' then radixVal 2 ds
          else None
      | _ \<Rightarrow> None)"

text \<open>
  \<^verbatim>\<open>Number(s)\<close> on a string: white space is trimmed on both sides, the empty string is
  zero, and the whole of what remains has to be one numeric literal.
\<close>

definition StringToNumber :: "string \<Rightarrow> jsnum" where
  "StringToNumber s =
     (let t = trim s
      in if t = [] then Fin 0
         else case nonDecimalLiteral t of
                Some n \<Rightarrow> fl (of_nat n)
              | None \<Rightarrow>
                  (case scanSigned t of
                     Some (neg, v, []) \<Rightarrow> roundMV neg v
                   | _ \<Rightarrow> NaN))"

text \<open>An argument of type \<^verbatim>\<open>string | number\<close>, and \<^verbatim>\<open>Number\<close> applied to it.\<close>

datatype strnum = Str string | Num jsnum

definition Number :: "strnum \<Rightarrow> jsnum" where
  "Number a = (case a of Str s \<Rightarrow> StringToNumber s | Num n \<Rightarrow> n)"

text \<open>
  \<^verbatim>\<open>parseInt(s, radix)\<close>, with radix \<open>0\<close> for a call without one: leading white space
  and a sign are skipped; a radix outside \<open>2..36\<close> gives \<^verbatim>\<open>NaN\<close>; radix 16, given or
  by default, skips a \<^verbatim>\<open>0x\<close> prefix; the longest run of digits of the radix is
  converted, \<^verbatim>\<open>NaN\<close> when it is empty.
\<close>

definition parseInt :: "string \<Rightarrow> int \<Rightarrow> jsnum" where
  "parseInt s radix =
     (let t = trimStart s;
          (neg, r) = (case t of
                        [] \<Rightarrow> (False, t)
                      | c # r' \<Rightarrow> if c = CHR ''-'' then (True, r')
                                  else if c = CHR ''+'' then (False, r') else (False, t))
      in if radix \<noteq> 0 \<and> (radix < 2 \<or> 36 < radix) then NaN
         else
           (let hex = ((radix = 0 \<or> radix = 16) \<and> (take 2 r = ''0x'' \<or> take 2 r = ''0X''));
                b = (if hex then 16 else if radix = 0 then 10 else nat radix);
                z = (if hex then drop 2 r else r);
                ds = takeWhile (isRadixDigit b) z;
                n = radixDigitsVal b ds
            in if ds = [] then NaN
               else fl (if neg then - of_nat n else of_nat n)))"

section \<open>Numbers to strings\<close>

text \<open>The decimal digits of a natural number.\<close>

fun show_nat :: "nat \<Rightarrow> string" where
  "show_nat n =
     (if n < 10 then [''0123456789'' ! n]
      else show_nat (n div 10) @ [''0123456789'' ! (n mod 10)])"

declare show_nat.simps [simp del]

text \<open>The decimal exponent of a positive rational: \<open>10 ^ ilog10 x \<le> x < 10 ^ (ilog10 x + 1)\<close>.\<close>

definition ilog10 :: "rat \<Rightarrow> int" where
  "ilog10 x = (let (p, q) = quotient_of x;
                   d = int (floorlog 10 (nat p)) - int (floorlog 10 (nat q))
               in if pow10 d \<le> x then d else d - 1)"

text \<open>
  \<^verbatim>\<open>Number::toString\<close> picks the least number of digits \<open>k\<close> and a \<open>k\<close>-digit integer
  \<open>s\<close> with \<open>s * 10 ^ (n - k)\<close> rounding to the value, the nearest such \<open>s\<close> when several
  do. The search tries \<open>k = 1, 2, ...\<close> on the two neighbours of the value at that
  resolution, for as many lengths as its last argument says; seventeen digits always
  suffice for a binary64 value.
\<close>

fun shortestDigits :: "rat \<Rightarrow> int \<Rightarrow> nat \<Rightarrow> nat \<Rightarrow> int \<times> nat" where
  "shortestDigits x n0 k 0 = (\<lfloor>x / pow10 (n0 - int k)\<rfloor>, k)"
| "shortestDigits x n0 k (Suc more) =
     (let r = pow10 (n0 - int k);
          lo = \<lfloor>x / r\<rfloor>;
          hi = lo + 1;
          okl = (fl (of_int lo * r) = Fin x);
          okh = (fl (of_int hi * r) = Fin x)
      in if okl \<and> okh then
           (if x - of_int lo * r < of_int hi * r - x then (lo, k)
            else if of_int hi * r - x < x - of_int lo * r then (hi, k)
            else if even lo then (lo, k) else (hi, k))
         else if okl then (lo, k)
         else if okh then (hi, k)
         else shortestDigits x n0 (Suc k) more)"

definition positiveToString :: "rat \<Rightarrow> string" where
  "positiveToString x =
     (let n0 = ilog10 x + 1;
          (s0, k) = shortestDigits x n0 1 20;
          (s, n) = (if s0 = 10 ^ k then (10 ^ (k - 1), n0 + 1) else (s0, n0));
          ds = show_nat (nat s)
      in if int k \<le> n \<and> n \<le> 21 then ds @ replicate (nat (n - int k)) (CHR ''0'')
         else if 0 < n \<and> n \<le> 21 then take (nat n) ds @ ''.'' @ drop (nat n) ds
         else if - 6 < n \<and> n \<le> 0 then ''0.'' @ replicate (nat (- n)) (CHR ''0'') @ ds
         else let es = (if n - 1 < 0 then ''-'' else ''+'') @ show_nat (nat \<bar>n - 1\<bar>)
              in if k = 1 then ds @ ''e'' @ es
                 else take 1 ds @ ''.'' @ drop 1 ds @ ''e'' @ es)"

text \<open>
  \<^verbatim>\<open>Number::toString\<close> with radix 10. For an integer of magnitude up to \<open>2 ^ 53\<close> the
  digit string that the rule above selects is the decimal expansion of the integer,
  which is written out as a case of its own.
\<close>

definition numberToString :: "jsnum \<Rightarrow> string" where
  "numberToString a =
     (case a of
        NaN \<Rightarrow> ''NaN''
      | PosInf \<Rightarrow> ''Infinity''
      | NegInf \<Rightarrow> ''-Infinity''
      | Fin x \<Rightarrow>
          (let m = \<bar>x\<bar>;
               body = (if m = of_int \<lfloor>m\<rfloor> \<and> m \<le> 2 ^ 53 then show_nat (nat \<lfloor>m\<rfloor>)
                       else positiveToString m)
           in if x < 0 then ''-'' @ body else body))"

text \<open>
  What a call can throw: an \<^verbatim>\<open>Error\<close> object, with its message, or a value that is not
  an \<^verbatim>\<open>Error\<close>.
\<close>

datatype thrown = ErrorObj string | NonError

text \<open>
  \<^verbatim>\<open>Number.prototype.toFixed\<close>: a \<^verbatim>\<open>RangeError\<close> for a digit count outside \<open>0..100\<close>;
  \<^verbatim>\<open>toString\<close> for a value that is not finite or of magnitude \<open>10 ^ 21\<close> and more;
  otherwise the integer \<open>n\<close> nearest to \<open>x * 10 ^ f\<close> (the larger one on a tie), padded
  with zeros to \<open>f + 1\<close> digits, with the point before the last \<open>f\<close>.
\<close>

definition toFixed :: "jsnum \<Rightarrow> int \<Rightarrow> thrown + string" where
  "toFixed a fd =
     (if fd < 0 \<or> 100 < fd then Inl (ErrorObj ''toFixed() digits argument must be between 0 and 100'')
      else case a of
             Fin x \<Rightarrow>
               if 10 ^ 21 \<le> \<bar>x\<bar> then Inr (numberToString a)
               else
                 (let f = nat fd;
                      n = \<lfloor>\<bar>x\<bar> * 10 ^ f + 1 / 2\<rfloor>;
                      m0 = show_nat (nat n);
                      m = (if length m0 \<le> f then replicate (f + 1 - length m0) (CHR ''0'') @ m0 else m0);
                      body = (if f \<noteq> 0 then take (length m - f) m @ ''.'' @ drop (length m - f) m else m)
                  in Inr ((if x < 0 then ''-'' else []) @ body))
           | _ \<Rightarrow> Inr (numberToString a))"

section \<open>The wallet utilities (\<^verbatim>\<open>src/utils/wallet.ts\<close>)\<close>

text \<open>
  The second copy of this file among the sources has the same text for the four pure
  functions \<^verbatim>\<open>lovelaceToAda\<close>, \<^verbatim>\<open>adaToLovelace\<close>, \<^verbatim>\<open>formatAddress\<close> and
  \<^verbatim>\<open>isValidAdaAmount\<close>. The staking page imports \<^verbatim>\<open>signMessage\<close> and \<^verbatim>\<open>sendFunds\<close> from
  \<^verbatim>\<open>utils/wallet\<close>, the copy modelled here.
\<close>

text \<open>
  \<^verbatim>\<open>const adaAmount = Number(lovelace) / 1000000; return adaAmount.toFixed(6);\<close>
\<close>

definition lovelaceToAda :: "strnum \<Rightarrow> thrown + string" where
  "lovelaceToAda lovelace =
     (let adaAmount = num_div (Number lovelace) (Fin 1000000)
      in toFixed adaAmount 6)"

text \<open>
  \<^verbatim>\<open>const lovelaceAmount = Number(ada) * 1000000; return Math.floor(lovelaceAmount).toString();\<close>
\<close>

definition adaToLovelace :: "strnum \<Rightarrow> string" where
  "adaToLovelace ada =
     (let lovelaceAmount = num_mul (Number ada) (Fin 1000000)
      in numberToString (Math_floor lovelaceAmount))"

text \<open>
  \<^verbatim>\<open>const num = parseFloat(amount); return !isNaN(num) && num > 0 && num <= 45000000;\<close>
\<close>

definition isValidAdaAmount :: "string \<Rightarrow> bool" where
  "isValidAdaAmount amount =
     (let num = parseFloat amount
      in \<not> isNaN num \<and> num_gt num (Fin 0) \<and> num_le num (Fin 45000000))"

text \<open>
  \<^verbatim>\<open>String.prototype.slice\<close>: an index argument is truncated to an integer (\<^verbatim>\<open>NaN\<close> to
  zero), a negative one counts from the end, and both are clamped to the string; a
  missing end is the length.
\<close>

definition sliceIndex :: "nat \<Rightarrow> jsnum \<Rightarrow> nat" where
  "sliceIndex len a =
     (case a of
        NaN \<Rightarrow> 0
      | PosInf \<Rightarrow> len
      | NegInf \<Rightarrow> 0
      | Fin x \<Rightarrow>
          (let i = (if x < 0 then \<lceil>x\<rceil> else \<lfloor>x\<rfloor>)
           in if i < 0 then nat (max (int len + i) 0) else min (nat i) len))"

definition slice :: "string \<Rightarrow> jsnum \<Rightarrow> jsnum option \<Rightarrow> string" where
  "slice s start fin =
     (let len = length s;
          from = sliceIndex len start;
          to = (case fin of None \<Rightarrow> len | Some e \<Rightarrow> sliceIndex len e)
      in take (to - from) (drop from s))"

definition num_neg :: "jsnum \<Rightarrow> jsnum" where
  "num_neg a = (case a of NaN \<Rightarrow> NaN | PosInf \<Rightarrow> NegInf | NegInf \<Rightarrow> PosInf | Fin x \<Rightarrow> Fin (- x))"

text \<open>
  \<^verbatim>\<open>formatAddress = (address: string, maxLength: number = 16): string => {\<close>
  \<^verbatim>\<open>  if (address.length <= maxLength) return address;\<close>
  \<^verbatim>\<open>  return `${address.slice(0, maxLength / 2)}...${address.slice(-maxLength / 2)}`; }\<close>
  A missing argument (\<open>None\<close>) takes the default.
\<close>

definition formatAddress :: "string \<Rightarrow> jsnum option \<Rightarrow> string" where
  "formatAddress address maxLengthArg =
     (let maxLength = (case maxLengthArg of None \<Rightarrow> Fin 16 | Some m \<Rightarrow> m)
      in if num_le (Fin (of_nat (length address))) maxLength then address
         else slice address (Fin 0) (Some (num_div maxLength (Fin 2))) @ ''...''
              @ slice address (num_div (num_neg maxLength) (Fin 2)) None)"

subsection \<open>The wallet extension\<close>

text \<open>
  The wallet is an external collaborator. What it answers to each call is a parameter
  of the model: every call either throws or returns. The calls made are recorded in
  order.
\<close>

record Wallet =
  signData :: "string \<Rightarrow> thrown + string"
  sendLovelace :: "string \<Rightarrow> string \<Rightarrow> thrown + unit"
  build :: "(string \<times> string) list \<Rightarrow> thrown + string"
  signTx :: "string \<Rightarrow> thrown + string"
  submitTx :: "string \<Rightarrow> thrown + string"
  getLovelace :: "thrown + string"

datatype call =
    SignData string
  | SendLovelace string string
  | Build
  | SignTx string
  | SubmitTx string
  | GetLovelace

text \<open>
  \<^verbatim>\<open>getBalance\<close>: \<^verbatim>\<open>(parseInt(lovelaceBalance) / 1000000).toFixed(6)\<close>, and \<^verbatim>\<open>"0"\<close> from
  the \<^verbatim>\<open>catch\<close>.
\<close>

definition getBalance :: "Wallet \<Rightarrow> string" where
  "getBalance w =
     (case getLovelace w of
        Inl e \<Rightarrow> ''0''
      | Inr lovelaceBalance \<Rightarrow>
          (case toFixed (num_div (parseInt lovelaceBalance 0) (Fin 1000000)) 6 of
             Inl e \<Rightarrow> ''0''
           | Inr adaBalance \<Rightarrow> adaBalance))"

text \<open>
  \<^verbatim>\<open>signMessage\<close>: the signature returned by \<^verbatim>\<open>wallet.signData(message)\<close>; whatever is
  thrown is replaced by \<^verbatim>\<open>new Error('Failed to sign message')\<close>.
\<close>

definition signMessage :: "Wallet \<Rightarrow> string \<Rightarrow> call list \<times> (thrown + string)" where
  "signMessage w message =
     ([SignData message],
      case signData w message of
        Inl e \<Rightarrow> Inl (ErrorObj ''Failed to sign message'')
      | Inr signature \<Rightarrow> Inr signature)"

text \<open>
  \<^verbatim>\<open>sendFunds\<close>: one output of \<^verbatim>\<open>Math.floor(parseFloat(amountInAda) * 1000000).toString()\<close>
  to the recipient, then \<^verbatim>\<open>build\<close>, \<^verbatim>\<open>signTx\<close>, \<^verbatim>\<open>submitTx\<close>; whatever is thrown on
  the way is replaced by \<^verbatim>\<open>new Error('Failed to stake funds')\<close>.
\<close>

definition sendFunds :: "Wallet \<Rightarrow> string \<Rightarrow> string \<Rightarrow> call list \<times> (thrown + string)" where
  "sendFunds w recipientAddress amountInAda =
     (let lovelaceAmount = Math_floor (num_mul (parseFloat amountInAda) (Fin 1000000));
          amount = numberToString lovelaceAmount;
          failed = Inl (ErrorObj ''Failed to stake funds'');
          t1 = [SendLovelace recipientAddress amount]
      in case sendLovelace w recipientAddress amount of
           Inl e \<Rightarrow> (t1, failed)
         | Inr u \<Rightarrow>
             (case build w [(recipientAddress, amount)] of
                Inl e \<Rightarrow> (t1 @ [Build], failed)
              | Inr unsignedTx \<Rightarrow>
                  (case signTx w unsignedTx of
                     Inl e \<Rightarrow> (t1 @ [Build, SignTx unsignedTx], failed)
                   | Inr signedTx \<Rightarrow>
                       (case submitTx w signedTx of
                          Inl e \<Rightarrow> (t1 @ [Build, SignTx unsignedTx, SubmitTx signedTx], failed)
                        | Inr txHash \<Rightarrow>
                            (t1 @ [Build, SignTx unsignedTx, SubmitTx signedTx], Inr txHash)))))"

section \<open>The staking page (\<^verbatim>\<open>Dash\<close>)\<close>

record StakePool =
  id :: string
  ticker :: string
  name :: string

definition PREDEFINED_ADDRESS :: string where
  "PREDEFINED_ADDRESS =
     ''addr1qyu5zmg7l5td593d2ks5ae7uctuhzk8h4ex0x5v8mcjjzmvlqrf65ppyqkrm8zpmpl6w0qh9e8wyhwsteqh7ksfamevqe9rqlw''"

text \<open>The state of the component that \<^verbatim>\<open>handleStake\<close> and \<^verbatim>\<open>fetchBalance\<close> read and set.\<close>

record Dash =
  wallet :: "Wallet option"
  selectedPool :: "StakePool option"
  stakeAmount :: string
  balance :: string
  isLoadingBalance :: bool
  error :: "string option"
  success :: "string option"
  isStaking :: bool

text \<open>
  \<^verbatim>\<open>fetchBalance\<close>: nothing without a wallet; otherwise the balance is fetched and set.
  \<^verbatim>\<open>getBalance\<close> catches everything, so the \<^verbatim>\<open>catch\<close> of \<^verbatim>\<open>fetchBalance\<close> is never
  entered.
\<close>

definition fetchBalance :: "Dash \<Rightarrow> Dash \<times> call list" where
  "fetchBalance s =
     (case wallet s of
        None \<Rightarrow> (s, [])
      | Some w \<Rightarrow> (s\<lparr>balance := getBalance w, isLoadingBalance := False\<rparr>, [GetLovelace]))"

text \<open>The \<^verbatim>\<open>catch\<close> and \<^verbatim>\<open>finally\<close> of \<^verbatim>\<open>handleStake\<close>.\<close>

definition stakeFailed :: "Dash \<Rightarrow> thrown \<Rightarrow> Dash" where
  "stakeFailed s err =
     s\<lparr>error := Some (case err of
                        ErrorObj message \<Rightarrow> message
                      | NonError \<Rightarrow> ''An unknown error occurred during staking''),
       isStaking := False\<rparr>"

text \<open>
  \<^verbatim>\<open>handleStake\<close>, run until everything it started has settled: the state it leaves and
  the wallet calls it made, in order.
\<close>

definition handleStake :: "Dash \<Rightarrow> Dash \<times> call list" where
  "handleStake s =
     (case (wallet s, selectedPool s) of
        (Some w, Some pool) \<Rightarrow>
          (let s1 = s\<lparr>isStaking := True, error := None, success := None\<rparr>;
               stakeAmountNumber = parseFloat (stakeAmount s)
           in if isNaN stakeAmountNumber \<or> num_lt stakeAmountNumber (Fin 5) then
                (stakeFailed s1 (ErrorObj ''Stake amount must be at least 5 ADA''), [])
              else
                (case signMessage w (name pool) of
                   (t1, Inl err) \<Rightarrow> (stakeFailed s1 err, t1)
                 | (t1, Inr signature) \<Rightarrow>
                     (case sendFunds w PREDEFINED_ADDRESS (stakeAmount s) of
                        (t2, Inl err) \<Rightarrow> (stakeFailed s1 err, t1 @ t2)
                      | (t2, Inr txHash) \<Rightarrow>
                          (let s2 = s1\<lparr>success := Some (''Successfully staked '' @ stakeAmount s
                                                           @ '' ADA to '' @ name pool),
                                      stakeAmount := []\<rparr>;
                               (s3, t3) = fetchBalance s2
                           in (s3\<lparr>isStaking := False\<rparr>, t1 @ t2 @ t3)))))
      | _ \<Rightarrow> (s, []))"

section \<open>The history page (\<^verbatim>\<open>History\<close>)\<close>

subsection \<open>The indexer\<close>

text \<open>
  What \<^verbatim>\<open>fetch\<close> resolves to: the status line, the \<^verbatim>\<open>X-Pagination-Total-Count\<close> header,
  and what \<^verbatim>\<open>response.json()\<close> and \<^verbatim>\<open>response.text()\<close> give when called (each may
  reject). A JSON body is an array of items or something else.
\<close>

datatype 'a json = JsonArray "'a list" | JsonOther

record 'a Response =
  status :: nat
  statusText :: string
  totalCountHeader :: "string option"
  json :: "thrown + 'a json"
  text_body :: "thrown + string"

definition ok :: "'a Response \<Rightarrow> bool" where
  "ok r = (200 \<le> status r \<and> status r \<le> 299)"

text \<open>
  An item of the address-transactions listing, and the detail record of a transaction,
  with the fields that the page reads. Items that lack these fields are not modelled.
\<close>

record tx_summary =
  tx_hash :: string
  block_height :: jsnum
  tx_index :: jsnum

record tx_details =
  block_time :: jsnum
  output_amount :: "strnum list"

text \<open>An item of the account-delegations listing; \<^verbatim>\<open>block_height\<close> may be absent.\<close>

record delegation =
  tx_hash :: string
  active_epoch :: jsnum
  block_height :: "jsnum option"
  pool_id :: string

text \<open>
  The indexer and the locale are parameters: the answer to each request (\<^verbatim>\<open>fetch\<close> may
  reject), and the rendering \<^verbatim>\<open>new Date(ms).toLocaleString()\<close>.
\<close>

record Indexer =
  getAddressTransactions :: "string \<Rightarrow> nat \<Rightarrow> nat \<Rightarrow> thrown + tx_summary Response"
  getTx :: "string \<Rightarrow> thrown + tx_details"
  getAccountDelegations :: "string \<Rightarrow> thrown + delegation Response"
  toLocaleString :: "jsnum \<Rightarrow> string"

subsection \<open>The component\<close>

datatype TxStatus = Outgoing | Incoming

record TransactionItem =
  txHash :: string
  block :: string
  time :: string
  amount :: string
  status :: TxStatus

record DelegateHistory =
  transaction :: string
  epoch :: string
  block :: string
  poolId :: string

definition ITEMS_PER_PAGE :: nat where
  "ITEMS_PER_PAGE = 10"

record History =
  transactions :: "TransactionItem list"
  isLoading :: bool
  error :: "string option"
  currentPage :: nat
  totalTransactions :: jsnum
  paymentAddress :: "string option"
  stakeAddress :: "string option"
  delegateHistory :: "DelegateHistory list"
  isDelegateHistoryLoading :: bool
  currentEpoch :: "jsnum option"

text \<open>
  \<^verbatim>\<open>handleError\<close>: \<^verbatim>\<open>setError(error instanceof Error ? error.message : 'An unknown error occurred')\<close>.
\<close>

definition handleError :: "History \<Rightarrow> thrown \<Rightarrow> History" where
  "handleError s err =
     s\<lparr>error := Some (case err of
                        ErrorObj message \<Rightarrow> message
                      | NonError \<Rightarrow> ''An unknown error occurred'')\<rparr>"

text \<open>
  The body of the \<^verbatim>\<open>map\<close> in \<^verbatim>\<open>fetchTransactions\<close>: the detail request, then the item.
  Reading \<^verbatim>\<open>output_amount[0].quantity\<close> of an empty list throws a \<^verbatim>\<open>TypeError\<close>.
\<close>

definition formatTransaction :: "Indexer \<Rightarrow> tx_summary \<Rightarrow> thrown + TransactionItem" where
  "formatTransaction ix tx =
     (case getTx ix (tx_summary.tx_hash tx) of
        Inl e \<Rightarrow> Inl e
      | Inr txDetails \<Rightarrow>
          (case output_amount txDetails of
             [] \<Rightarrow> Inl (ErrorObj ''Cannot read properties of undefined (reading 'quantity')'')
           | quantity # _ \<Rightarrow>
               (case toFixed (num_div (Number quantity) (Fin 1000000)) 6 of
                  Inl e \<Rightarrow> Inl e
                | Inr a \<Rightarrow>
                    Inr \<lparr>txHash = tx_summary.tx_hash tx,
                         TransactionItem.block = numberToString (tx_summary.block_height tx),
                         time = toLocaleString ix (num_mul (block_time txDetails) (Fin 1000)),
                         amount = a,
                         status = (if tx_index tx = Fin 0 then Outgoing else Incoming)\<rparr>)))"

text \<open>
  \<^verbatim>\<open>Promise.all\<close> over the items: all the results, or what a failing one threw (the
  first in the order of the list; which of several failures is reported first is not
  modelled).
\<close>

fun awaitAll :: "('a \<Rightarrow> thrown + 'b) \<Rightarrow> 'a list \<Rightarrow> thrown + 'b list" where
  "awaitAll f [] = Inr []"
| "awaitAll f (x # xs) =
     (case f x of
        Inl e \<Rightarrow> Inl e
      | Inr y \<Rightarrow> (case awaitAll f xs of Inl e \<Rightarrow> Inl e | Inr ys \<Rightarrow> Inr (y # ys)))"

text \<open>
  What the \<^verbatim>\<open>try\<close> block of \<^verbatim>\<open>fetchTransactions\<close> does after the request, on the state
  \<open>s1\<close> set before it: the state it leaves, or what it throws.
\<close>

definition fetchTransactions_try :: "Indexer \<Rightarrow> History \<Rightarrow> thrown + History" where
  "fetchTransactions_try ix s1 =
     (case paymentAddress s1 of
        None \<Rightarrow> Inl (ErrorObj ''No payment address found'')
      | Some addr \<Rightarrow>
          if addr = [] then Inl (ErrorObj ''No payment address found'')
          else
            (case getAddressTransactions ix addr (currentPage s1) ITEMS_PER_PAGE of
               Inl e \<Rightarrow> Inl e
             | Inr response \<Rightarrow>
                 if Response.status response = 404 then
                   Inr (s1\<lparr>transactions := [], totalTransactions := Fin 0, isLoading := False\<rparr>)
                 else if \<not> ok response then
                   (case json response of
                      Inl e \<Rightarrow> Inl e
                    | Inr errorData \<Rightarrow>
                        Inl (ErrorObj (''API request failed: '' @ show_nat (Response.status response)
                                        @ '' '' @ statusText response)))
                 else
                   (case json response of
                      Inl e \<Rightarrow> Inl e
                    | Inr JsonOther \<Rightarrow> Inl (ErrorObj ''Unexpected API response format'')
                    | Inr (JsonArray data) \<Rightarrow>
                        (case awaitAll (formatTransaction ix) data of
                           Inl e \<Rightarrow> Inl e
                         | Inr formattedTransactions \<Rightarrow>
                             Inr (s1\<lparr>transactions := formattedTransactions,
                                     totalTransactions :=
                                       parseInt (case totalCountHeader response of
                                                   None \<Rightarrow> ''0''
                                                 | Some h \<Rightarrow> if h = [] then ''0'' else h) 10\<rparr>)))))"

text \<open>\<^verbatim>\<open>fetchTransactions\<close>: the \<^verbatim>\<open>try\<close> block with its \<^verbatim>\<open>catch\<close> and \<^verbatim>\<open>finally\<close>.\<close>

definition fetchTransactions :: "Indexer \<Rightarrow> History \<Rightarrow> History" where
  "fetchTransactions ix s =
     (let s1 = s\<lparr>isLoading := True, error := None\<rparr>
      in case fetchTransactions_try ix s1 of
           Inl e \<Rightarrow> (handleError s1 e)\<lparr>isLoading := False\<rparr>
         | Inr s2 \<Rightarrow> s2\<lparr>isLoading := False\<rparr>)"

text \<open>The body of the \<^verbatim>\<open>map\<close> in \<^verbatim>\<open>fetchDelegateHistory\<close>.\<close>

definition truthy :: "jsnum \<Rightarrow> bool" where
  "truthy a = (a \<noteq> NaN \<and> a \<noteq> Fin 0)"

definition formatDelegation :: "jsnum option \<Rightarrow> delegation \<Rightarrow> DelegateHistory" where
  "formatDelegation epochNow item =
     \<lparr>transaction = delegation.tx_hash item,
      epoch = ''Epoch '' @ numberToString (active_epoch item)
              @ (case epochNow of
                   None \<Rightarrow> []
                 | Some e \<Rightarrow> if truthy e then '' (Current: '' @ numberToString e @ '')'' else []),
      block = (case delegation.block_height item of
                 None \<Rightarrow> ''N/A''
               | Some h \<Rightarrow> if truthy h then numberToString h else ''N/A''),
      poolId = pool_id item\<rparr>"

text \<open>The \<^verbatim>\<open>try\<close> block of \<^verbatim>\<open>fetchDelegateHistory\<close>: the formatted list, or what it throws.\<close>

definition fetchDelegateHistory_try :: "Indexer \<Rightarrow> History \<Rightarrow> thrown + DelegateHistory list" where
  "fetchDelegateHistory_try ix s1 =
     (case stakeAddress s1 of
        None \<Rightarrow> Inl (ErrorObj ''No stake address found'')
      | Some addr \<Rightarrow>
          if addr = [] then Inl (ErrorObj ''No stake address found'')
          else
            (case getAccountDelegations ix addr of
               Inl e \<Rightarrow> Inl e
             | Inr response \<Rightarrow>
                 if \<not> ok response then
                   (case text_body response of
                      Inl e \<Rightarrow> Inl e
                    | Inr errorBody \<Rightarrow>
                        Inl (ErrorObj (''API request failed: '' @ show_nat (Response.status response)
                                        @ '' '' @ statusText response)))
                 else
                   (case json response of
                      Inl e \<Rightarrow> Inl e
                    | Inr JsonOther \<Rightarrow> Inl (ErrorObj ''Unexpected API response format'')
                    | Inr (JsonArray data) \<Rightarrow> Inr (map (formatDelegation (currentEpoch s1)) data))))"

text \<open>
  \<^verbatim>\<open>fetchDelegateHistory\<close>: on a failure the \<^verbatim>\<open>catch\<close> records the message through
  \<^verbatim>\<open>handleError\<close> and empties the list.
\<close>

definition fetchDelegateHistory :: "Indexer \<Rightarrow> History \<Rightarrow> History" where
  "fetchDelegateHistory ix s =
     (let s1 = s\<lparr>isDelegateHistoryLoading := True, error := None\<rparr>
      in case fetchDelegateHistory_try ix s1 of
           Inl e \<Rightarrow> (handleError s1 e)\<lparr>delegateHistory := [], isDelegateHistoryLoading := False\<rparr>
         | Inr formattedDelegateHistory \<Rightarrow>
             s1\<lparr>delegateHistory := formattedDelegateHistory, isDelegateHistoryLoading := False\<rparr>)"

text \<open>
  \<^verbatim>\<open>const totalPages = Math.max(1, Math.ceil(totalTransactions / ITEMS_PER_PAGE));\<close>
\<close>

definition totalPages :: "History \<Rightarrow> jsnum" where
  "totalPages s =
     Math_max (Fin 1) (Math_ceil (num_div (totalTransactions s) (Fin (of_nat ITEMS_PER_PAGE))))"

text \<open>
  What the component returns: the preloader while either fetch is loading; the error
  view (title, message, retry button) when \<^verbatim>\<open>error\<close> is set to a non-empty string; the
  page with the transaction table and the delegation table otherwise.
\<close>

datatype View =
    PreloaderView
  | ErrorView string
  | HistoryView "TransactionItem list" "DelegateHistory list"

definition render :: "History \<Rightarrow> View" where
  "render s =
     (if isLoading s \<or> isDelegateHistoryLoading s then PreloaderView
      else case error s of
             None \<Rightarrow> HistoryView (transactions s) (delegateHistory s)
           | Some e \<Rightarrow> if e = [] then HistoryView (transactions s) (delegateHistory s)
                       else ErrorView e)"

section \<open>Concrete inputs\<close>

text \<open>
  A wallet that answers every call, a pool, and the state of the staking page with
  both selected and a given amount entered; a history page that has loaded; an indexer
  that answers with a given response.
\<close>

definition demoWallet :: Wallet where
  "demoWallet =
     \<lparr>signData = (\<lambda>message. Inr ''signature''),
      sendLovelace = (\<lambda>recipient amount. Inr ()),
      build = (\<lambda>outputs. Inr ''unsigned''),
      signTx = (\<lambda>unsignedTx. Inr ''signed''),
      submitTx = (\<lambda>signedTx. Inr ''txhash''),
      getLovelace = Inr ''7000000''\<rparr>"

definition demoPool :: StakePool where
  "demoPool = \<lparr>id = ''pool1'', ticker = ''POOL1'', name = ''Pool One''\<rparr>"

definition demoDash :: "string \<Rightarrow> Dash" where
  "demoDash amt =
     \<lparr>wallet = Some demoWallet, selectedPool = Some demoPool, stakeAmount = amt,
      balance = ''0'', isLoadingBalance = False, Dash.error = None, success = None,
      isStaking = False\<rparr>"

definition demoItem :: TransactionItem where
  "demoItem =
     \<lparr>txHash = ''abc'', TransactionItem.block = ''100'', time = ''t'', amount = ''1.000000'',
      status = Outgoing\<rparr>"

definition demoHistory :: History where
  "demoHistory =
     \<lparr>transactions = [demoItem], isLoading = False, error = None, currentPage = 1,
      totalTransactions = Fin 1, paymentAddress = Some ''addr1'', stakeAddress = Some ''stake1'',
      delegateHistory = [], isDelegateHistoryLoading = False, currentEpoch = None\<rparr>"

definition demoIndexer ::
  "(thrown + tx_summary Response) \<Rightarrow> (thrown + delegation Response) \<Rightarrow> Indexer" where
  "demoIndexer txs dels =
     \<lparr>getAddressTransactions = (\<lambda>addr page count. txs),
      getTx = (\<lambda>hash. Inr \<lparr>block_time = Fin 0, output_amount = [Str ''1000000'']\<rparr>),
      getAccountDelegations = (\<lambda>addr. dels),
      toLocaleString = (\<lambda>ms. ''t'')\<rparr>"

definition demoResponse :: "nat \<Rightarrow> string \<Rightarrow> string option \<Rightarrow> (thrown + 'a json) \<Rightarrow> 'a Response" where
  "demoResponse st stText header body =
     \<lparr>Response.status = st, statusText = stText, totalCountHeader = header, json = body,
      text_body = Inr ''body''\<rparr>"

section \<open>Properties of the rounding\<close>

lemma pow2_powi: "pow2 e = 2 powi e"
  by (simp add: pow2_def power_int_def inverse_eq_divide power_one_over)

lemma pow2_pos [simp]: "0 < pow2 e"
  by (simp add: pow2_powi)

lemma pow2_neq0 [simp]: "pow2 e \<noteq> 0"
  by (simp add: pow2_powi)

lemma pow2_nonneg [simp]: "0 \<le> pow2 e"
  by (rule less_imp_le [OF pow2_pos])

lemma pow2_add: "pow2 (a + b) = pow2 a * pow2 b"
  by (simp add: pow2_powi power_int_add)

lemma pow2_mono: "a \<le> b \<Longrightarrow> pow2 a \<le> pow2 b"
  by (simp add: pow2_powi power_int_increasing)

lemma pow2_strict_mono: "a < b \<Longrightarrow> pow2 a < pow2 b"
  by (simp add: pow2_powi power_int_strict_increasing)

lemma pow2_nat: "pow2 (int n) = 2 ^ n"
  by (simp add: pow2_def)

lemma pow2_le_iff: "pow2 a \<le> pow2 b \<longleftrightarrow> a \<le> b"
  using pow2_mono pow2_strict_mono by (metis not_le)

lemma pow2_less_iff: "pow2 a < pow2 b \<longleftrightarrow> a < b"
  using pow2_mono pow2_strict_mono by (metis not_le)

lemma bitlen_pow2_bounds:
  assumes "0 < p"
  shows "pow2 (bitlen p - 1) \<le> of_int p" and "of_int p < pow2 (bitlen p)"
proof -
  have b: "2 ^ nat (bitlen p - 1) \<le> p \<and> p < 2 ^ nat (bitlen p)"
    using bitlen_bounds [OF assms] .
  have ge1: "1 \<le> bitlen p"
    using assms bitlen_eq_zero_iff [of p] bitlen_nonneg [of p] by linarith
  have "pow2 (bitlen p - 1) = of_int (2 ^ nat (bitlen p - 1))"
    using ge1 by (simp add: pow2_def)
  also have "\<dots> \<le> of_int p"
    using b by (simp only: of_int_le_iff)
  finally show "pow2 (bitlen p - 1) \<le> of_int p" .
  have "(of_int p :: rat) < of_int (2 ^ nat (bitlen p))"
    using b by (simp only: of_int_less_iff)
  also have "\<dots> = pow2 (bitlen p)"
    using ge1 by (simp add: pow2_def)
  finally show "of_int p < pow2 (bitlen p)" .
qed

lemma ilog2_bounds:
  assumes "0 < x"
  shows "pow2 (ilog2 x) \<le> x \<and> x < pow2 (ilog2 x + 1)"
proof -
  obtain p q where pq: "quotient_of x = (p, q)"
    by (cases "quotient_of x")
  have q: "0 < q" using pq by (rule quotient_of_denom_pos)
  have x: "x = of_int p / of_int q" using pq by (rule quotient_of_div)
  have p: "0 < p" using assms q x by (simp add: zero_less_divide_iff)
  define d where "d = bitlen p - bitlen q"
  have qr: "(0::rat) < of_int q" using q by simp
  have up: "x < pow2 (d + 1)"
  proof -
    have "of_int p < pow2 (bitlen p)" using bitlen_pow2_bounds [OF p] by simp
    also have "\<dots> = pow2 (d + 1) * pow2 (bitlen q - 1)"
      by (simp add: d_def pow2_add [symmetric])
    also have "\<dots> \<le> pow2 (d + 1) * of_int q"
      using bitlen_pow2_bounds(1) [OF q] by (simp add: mult_left_mono)
    finally show ?thesis using qr by (simp add: x pos_divide_less_eq)
  qed
  have lo: "pow2 (d - 1) < x"
  proof -
    have "pow2 (d - 1) * of_int q < pow2 (d - 1) * pow2 (bitlen q)"
      using bitlen_pow2_bounds(2) [OF q] by simp
    also have "\<dots> = pow2 (bitlen p - 1)"
      by (simp add: d_def pow2_add [symmetric])
    also have "\<dots> \<le> of_int p" using bitlen_pow2_bounds(1) [OF p] .
    finally show ?thesis using qr by (simp add: x pos_less_divide_eq)
  qed
  have il: "ilog2 x = (if pow2 d \<le> x then d else d - 1)"
    by (simp add: ilog2_def pq d_def Let_def)
  show ?thesis
  proof (cases "pow2 d \<le> x")
    case True then show ?thesis using up il by simp
  next
    case False then show ?thesis using lo il by simp
  qed
qed

lemma ilog2_unique:
  assumes "pow2 k \<le> x" "x < pow2 (k + 1)"
  shows "ilog2 x = k"
proof -
  have x: "0 < x" using assms(1) pow2_pos [of k] by linarith
  note b = ilog2_bounds [OF x]
  have "pow2 k < pow2 (ilog2 x + 1)" using assms(1) b by linarith
  then have 1: "k < ilog2 x + 1" by (simp add: pow2_less_iff)
  have "pow2 (ilog2 x) < pow2 (k + 1)" using assms(2) b by linarith
  then have 2: "ilog2 x < k + 1" by (simp add: pow2_less_iff)
  from 1 2 show ?thesis by linarith
qed

lemma round_half_even_int [simp]: "round_half_even (of_int k) = k"
  by (simp add: round_half_even_def)

lemma round_half_even_err_aux:
  fixes r :: rat
  assumes "0 \<le> r" "r < 1"
  shows "\<bar>of_int (if r < 1 / 2 then f else if 1 / 2 < r then f + 1
                  else if even f then f else f + 1) - (of_int f + r)\<bar> \<le> 1 / 2"
  using assms by (auto simp: abs_if)

lemma round_half_even_err: "\<bar>of_int (round_half_even y) - y\<bar> \<le> 1 / 2"
proof -
  have r: "0 \<le> y - of_int \<lfloor>y\<rfloor>" "y - of_int \<lfloor>y\<rfloor> < 1" by linarith+
  show ?thesis
    using round_half_even_err_aux [OF r, of "\<lfloor>y\<rfloor>"]
    by (simp add: round_half_even_def Let_def)
qed

lemma round_half_even_nonneg: "0 \<le> y \<Longrightarrow> 0 \<le> round_half_even y"
  unfolding round_half_even_def Let_def by (auto simp: zero_le_floor)

lemma round_half_even_le: "y \<le> of_int k \<Longrightarrow> round_half_even y \<le> k"
proof -
  assume a: "y \<le> of_int k"
  have fl: "\<lfloor>y\<rfloor> \<le> k" using floor_mono [OF a] by simp
  show ?thesis
  proof (cases "\<lfloor>y\<rfloor> = k")
    case True
    then have "y = of_int k" using a by linarith
    then show ?thesis by simp
  next
    case False
    then have "\<lfloor>y\<rfloor> + 1 \<le> k" using fl by linarith
    then show ?thesis unfolding round_half_even_def Let_def by auto
  qed
qed

lemma round_half_even_ge: "of_int k \<le> y \<Longrightarrow> k \<le> round_half_even y"
proof -
  assume a: "of_int k \<le> y"
  then have "k \<le> \<lfloor>y\<rfloor>" by (simp add: le_floor_iff)
  then show ?thesis unfolding round_half_even_def Let_def by auto
qed

lemma pow2_1024: "pow2 1024 = 2 ^ 1024"
  using pow2_nat [of 1024] by simp

lemma pow2_53: "pow2 53 = 2 ^ 53"
  using pow2_nat [of 53] by simp

lemma fl_pos_unfold:
  assumes "0 < x"
  shows "fl x = (if pow2 1024 \<le> of_int (round_half_even (x / pow2 (max (- 1074) (ilog2 x - 52))))
                                  * pow2 (max (- 1074) (ilog2 x - 52))
                 then PosInf
                 else Fin (of_int (round_half_even (x / pow2 (max (- 1074) (ilog2 x - 52))))
                           * pow2 (max (- 1074) (ilog2 x - 52))))"
  using assms unfolding fl_def Let_def pow2_1024 by (simp add: abs_of_pos)

lemma fl_zero [simp]: "fl 0 = Fin 0"
  by (simp add: fl_def)

lemma fl_neg_unfold:
  assumes "0 < x"
  shows "fl (- x) = (case fl x of Fin v \<Rightarrow> Fin (- v) | PosInf \<Rightarrow> NegInf | NegInf \<Rightarrow> PosInf | NaN \<Rightarrow> NaN)"
  using assms unfolding fl_def Let_def by (simp add: abs_of_pos)

text \<open>A value with at most 53 significant bits in the exponent range is not changed.\<close>

lemma fl_exact_pos:
  assumes m: "0 < m" "m < 2 ^ 53" and e0: "- 1074 \<le> e0" "e0 \<le> 970"
  shows "fl (of_int m * pow2 e0) = Fin (of_int m * pow2 e0)"
proof -
  define x where "x = of_int m * pow2 e0"
  have xpos: "0 < x" using m by (simp add: x_def)
  define e where "e = max (- 1074) (ilog2 x - 52)"
  have "(of_int m :: rat) < of_int (2 ^ 53)" using m(2) by (simp only: of_int_less_iff)
  then have "(of_int m :: rat) < pow2 53" by (simp add: pow2_53)
  then have "x < pow2 53 * pow2 e0" by (simp add: x_def)
  then have xlt: "x < pow2 (53 + e0)" by (simp add: pow2_add)
  have "pow2 (ilog2 x) < pow2 (53 + e0)"
    using ilog2_bounds [OF xpos] xlt by linarith
  then have "ilog2 x < 53 + e0" by (simp add: pow2_less_iff)
  then have ee: "e \<le> e0" using e0 by (simp add: e_def)
  define k where "k = nat (e0 - e)"
  have "pow2 e0 = pow2 (int k) * pow2 e"
    using ee by (simp add: k_def pow2_add [symmetric])
  then have p: "pow2 e0 = 2 ^ k * pow2 e" by (simp add: pow2_nat)
  have q: "x / pow2 e = of_int (m * 2 ^ k)"
    by (simp add: x_def p)
  have v: "of_int (round_half_even (x / pow2 e)) * pow2 e = x"
    unfolding q round_half_even_int by (simp add: x_def p)
  have "pow2 (53 + e0) \<le> pow2 1023" using e0 by (intro pow2_mono) simp
  also have "\<dots> < pow2 1024" by (intro pow2_strict_mono) simp
  finally have "x < pow2 1024" using xlt by linarith
  then show ?thesis
    using fl_pos_unfold [OF xpos] v
    by (simp add: e_def [symmetric] x_def [symmetric])
qed

lemma fl_exact:
  assumes m: "\<bar>m\<bar> < 2 ^ 53" and e0: "- 1074 \<le> e0" "e0 \<le> 970"
  shows "fl (of_int m * pow2 e0) = Fin (of_int m * pow2 e0)"
proof -
  consider "m = 0" | "0 < m" | "m < 0" by linarith
  then show ?thesis
  proof cases
    case 1 then show ?thesis by simp
  next
    case 2 then show ?thesis using fl_exact_pos [of m e0] m e0 by simp
  next
    case 3
    then have p: "0 < - m" "- m < 2 ^ 53" using m by simp_all
    have x: "0 < of_int (- m) * pow2 e0" using p(1) by (simp del: of_int_minus)
    have "fl (of_int m * pow2 e0) = fl (- (of_int (- m) * pow2 e0))" by simp
    also have "\<dots> = Fin (- (of_int (- m) * pow2 e0))"
      unfolding fl_neg_unfold [OF x] fl_exact_pos [OF p e0] by simp
    finally show ?thesis by simp
  qed
qed

lemma fl_int:
  assumes "\<bar>n\<bar> < 2 ^ 53"
  shows "fl (of_int n) = Fin (of_int n)"
  using fl_exact [OF assms, of 0] by (simp add: pow2_def)

lemma fl_nat:
  assumes "n < 2 ^ 53"
  shows "fl (of_nat n) = Fin (of_nat n)"
proof -
  have "\<bar>int n\<bar> < 2 ^ 53" using assms by (simp add: nat_less_iff flip: of_nat_power)
  from fl_int [OF this] show ?thesis by simp
qed

text \<open>Below the overflow range the rounded value is finite and within half a unit in the last place.\<close>

lemma fl_bound:
  assumes xpos: "0 < x" and xlt: "x < pow2 1023"
  shows "\<exists>v. fl x = Fin v \<and> 0 \<le> v \<and> \<bar>v - x\<bar> \<le> x / 2 ^ 53 + pow2 (- 1075)"
proof -
  define L where "L = ilog2 x"
  define e where "e = max (- 1074) (L - 52)"
  define y where "y = x / pow2 e"
  define m where "m = round_half_even y"
  define v where "v = of_int m * pow2 e"
  have b: "pow2 L \<le> x" "x < pow2 (L + 1)"
    using ilog2_bounds [OF xpos] by (simp_all add: L_def)
  have ypos: "0 < y" using xpos by (simp add: y_def)
  have m0: "0 \<le> m" using ypos by (simp add: m_def round_half_even_nonneg)
  have v0: "0 \<le> v" using m0 by (simp add: v_def)
  have xy: "x = y * pow2 e" by (simp add: y_def)
  have "\<bar>v - x\<bar> = \<bar>of_int m - y\<bar> * pow2 e"
    by (simp add: v_def xy abs_mult left_diff_distrib [symmetric])
  also have "\<dots> \<le> (1 / 2) * pow2 e"
    using round_half_even_err [of y] by (intro mult_right_mono) (simp_all add: m_def)
  also have "\<dots> = pow2 (e - 1)"
  proof -
    have "pow2 e = pow2 (e - 1) * pow2 1" by (simp add: pow2_add [symmetric])
    then show ?thesis by (simp add: pow2_def)
  qed
  also have "\<dots> \<le> x / 2 ^ 53 + pow2 (- 1075)"
  proof (cases "- 1074 \<le> L - 52")
    case True
    then have e1: "e - 1 = L - 53" by (simp add: e_def)
    have "pow2 L = pow2 (L - 53) * pow2 53" by (simp add: pow2_add [symmetric])
    then have "pow2 (e - 1) = pow2 L / 2 ^ 53" by (simp add: pow2_53 e1)
    moreover have "pow2 L / 2 ^ 53 \<le> x / 2 ^ 53" using b(1) by (simp add: divide_right_mono)
    moreover have "0 \<le> pow2 (- 1075)" by (rule pow2_nonneg)
    ultimately show ?thesis by linarith
  next
    case False
    then have "e - 1 = - 1075" by (simp add: e_def)
    then have "pow2 (e - 1) = pow2 (- 1075)" by (rule arg_cong)
    moreover have "0 \<le> x / 2 ^ 53" using xpos by simp
    ultimately show ?thesis by linarith
  qed
  finally have err: "\<bar>v - x\<bar> \<le> x / 2 ^ 53 + pow2 (- 1075)" .
  have "pow2 L < pow2 1023" using b(1) xlt by linarith
  then have L: "L < 1023" by (simp add: pow2_less_iff)
  then have e970: "e \<le> 970" by (simp add: e_def)
  have "L + 1 \<le> e + 53" by (simp add: e_def)
  then have "pow2 (L + 1) \<le> pow2 (e + 53)" by (rule pow2_mono)
  then have "x < pow2 53 * pow2 e" using b(2) by (simp add: pow2_add mult.commute)
  then have "y < pow2 53" by (simp add: y_def pos_divide_less_eq)
  then have "y \<le> of_int (2 ^ 53)" by (simp add: pow2_53)
  then have "m \<le> 2 ^ 53" unfolding m_def by (rule round_half_even_le)
  then have "(of_int m :: rat) \<le> of_int (2 ^ 53)" by (simp only: of_int_le_iff)
  then have "(of_int m :: rat) \<le> pow2 53" by (simp add: pow2_53)
  then have "v \<le> pow2 53 * pow2 e" by (simp add: v_def)
  also have "\<dots> = pow2 (53 + e)" by (simp add: pow2_add)
  also have "\<dots> \<le> pow2 1023" using e970 by (intro pow2_mono) simp
  also have "\<dots> < pow2 1024" by (intro pow2_strict_mono) simp
  finally have "\<not> pow2 1024 \<le> v" by simp
  then have "fl x = Fin v"
    using fl_pos_unfold [OF xpos]
    by (simp add: v_def m_def y_def e_def L_def)
  then show ?thesis using v0 err by blast
qed

text \<open>A value from \<open>2 ^ 53\<close> on does not round below \<open>2 ^ 53\<close>.\<close>

lemma fl_large:
  assumes "2 ^ 53 \<le> y" "fl y = Fin v"
  shows "2 ^ 53 \<le> v"
proof -
  have ypos: "0 < y" using assms(1) by (rule less_le_trans [rotated]) simp
  define L where "L = ilog2 y"
  define e where "e = max (- 1074) (L - 52)"
  define m where "m = round_half_even (y / pow2 e)"
  have b: "pow2 L \<le> y" "y < pow2 (L + 1)"
    using ilog2_bounds [OF ypos] by (simp_all add: L_def)
  have "pow2 53 < pow2 (L + 1)" using assms(1) b(2) by (simp add: pow2_53)
  then have L: "53 \<le> L" by (simp add: pow2_less_iff)
  then have e: "e = L - 52" by (simp add: e_def)
  have "pow2 L = pow2 52 * pow2 e" by (simp add: e pow2_add [symmetric])
  then have "pow2 52 * pow2 e \<le> y" using b(1) by simp
  then have "pow2 52 \<le> y / pow2 e" by (simp add: pos_le_divide_eq)
  moreover have "pow2 52 = of_int (2 ^ 52)" using pow2_nat [of 52] by simp
  ultimately have "of_int (2 ^ 52) \<le> y / pow2 e" by simp
  then have "2 ^ 52 \<le> m" unfolding m_def by (rule round_half_even_ge)
  then have "(of_int (2 ^ 52) :: rat) \<le> of_int m" by (simp only: of_int_le_iff)
  then have "pow2 52 \<le> of_int m" using pow2_nat [of 52] by simp
  then have "pow2 52 * pow2 e \<le> of_int m * pow2 e" by (simp add: mult_right_mono)
  then have "pow2 L \<le> of_int m * pow2 e" by (simp add: e pow2_add [symmetric])
  moreover have "pow2 53 \<le> pow2 L" using L by (rule pow2_mono)
  ultimately have ge: "2 ^ 53 \<le> of_int m * pow2 e" by (simp add: pow2_53)
  have "fl y = Fin v \<longrightarrow> v = of_int m * pow2 e"
    using fl_pos_unfold [OF ypos]
    by (simp add: m_def e_def L_def split: if_splits)
  then show ?thesis using assms(2) ge by simp
qed

text \<open>Halving an integer below \<open>2 ^ 53\<close> in magnitude is exact.\<close>

lemma fl_half_int:
  assumes "\<bar>m\<bar> < 2 ^ 53"
  shows "fl (of_int m / 2) = Fin (of_int m / 2)"
  using fl_exact [OF assms, of "- 1"] by (simp add: pow2_def)

section \<open>Evaluation on concrete inputs\<close>

lemma fl_numeral:
  "numeral k < (2 ^ 53 :: int) \<Longrightarrow> fl (numeral k) = Fin (numeral k)"
  using fl_int [of "numeral k"] by simp

lemma fl_one [simp]: "fl 1 = Fin 1"
  using fl_int [of 1] by simp

lemma pow2_m1075_le: "pow2 (- 1075) \<le> 1 / 2 ^ 128"
proof -
  have "pow2 (- 1075) \<le> pow2 (- 128)" by (rule pow2_mono) simp
  then show ?thesis by (simp add: pow2_def)
qed

lemma pow2_1023_ge: "2 ^ 53 \<le> pow2 1023"
proof -
  have "pow2 53 \<le> pow2 1023" by (rule pow2_mono) simp
  then show ?thesis by (simp add: pow2_53)
qed

text \<open>A positive value below \<open>2 ^ 53\<close> rounds to a finite value within the relative error.\<close>

lemma fl_small:
  assumes "0 < x" "x < 2 ^ 53"
  shows "\<exists>v. fl x = Fin v \<and> 0 \<le> v \<and> \<bar>v - x\<bar> \<le> x / 2 ^ 53 + 1 / 2 ^ 128"
proof -
  have "x < pow2 1023" using assms(2) pow2_1023_ge by linarith
  from fl_bound [OF assms(1) this] obtain v where
    v: "fl x = Fin v" "0 \<le> v" "\<bar>v - x\<bar> \<le> x / 2 ^ 53 + pow2 (- 1075)" by blast
  have "\<bar>v - x\<bar> \<le> x / 2 ^ 53 + 1 / 2 ^ 128" using v(3) pow2_m1075_le by linarith
  then show ?thesis using v(1,2) by blast
qed

lemma fl_lt:
  assumes "0 < x" "x < 2 ^ 53" "x + x / 2 ^ 53 + 1 / 2 ^ 128 < c"
  shows "num_lt (fl x) (Fin c)"
proof -
  from fl_small [OF assms(1,2)] obtain v where
    v: "fl x = Fin v" "\<bar>v - x\<bar> \<le> x / 2 ^ 53 + 1 / 2 ^ 128" by blast
  have "v < c" using v(2) assms(3) by linarith
  then show ?thesis by (simp add: v(1) num_lt_def)
qed

lemma floor_half: "\<lfloor>1 / 2 :: rat\<rfloor> = 0"
  by (rule floor_unique) simp_all

lemmas scan_defs = parseFloat_def StringToNumber_def Number_def trimStart_def trim_def
  isWhiteSpace_def scanSigned_def scanUnsigned_def scanExponent_def nonDecimalLiteral_def
  isDigit_def digitsVal_def pow10_def roundMV_def Let_def

lemma parseFloat_abc: "parseFloat ''abc'' = NaN"
  by (simp add: scan_defs)

lemma Number_abc: "Number (Str ''abc'') = NaN"
  by (simp add: scan_defs)

lemma parseFloat_10: "parseFloat ''10'' = Fin 10"
  by (simp add: scan_defs fl_numeral)

lemma Number_10: "StringToNumber ''10'' = Fin 10"
  by (simp add: scan_defs fl_numeral)

lemma scanSigned_10: "scanSigned ''10'' = Some (False, MFin 10, [])"
  by (simp add: scan_defs)

lemma parseFloat_4_999999: "parseFloat ''4.999999'' = fl (4999999 / 1000000)"
  by (simp add: scan_defs)

lemma parseFloat_4_999999_lt: "num_lt (parseFloat ''4.999999'') (Fin 5)"
  unfolding parseFloat_4_999999 by (rule fl_lt) simp_all

lemma parseFloat_50000000: "parseFloat ''50000000'' = Fin 50000000"
  by (simp add: scan_defs fl_numeral)

lemma show_nat_10000000: "show_nat 10000000 = ''10000000''"
  by (simp add: show_nat.simps)

lemma show_nat_5000000: "show_nat 5000000 = ''5000000''"
  by (simp add: show_nat.simps)

lemma show_nat_500: "show_nat 500 = ''500''"
  by (simp add: show_nat.simps)

lemma lovelace_of_10:
  "numberToString (Math_floor (num_mul (Fin 10) (Fin 1000000))) = ''10000000''"
  by (simp add: numberToString_def Math_floor_def num_mul_def fl_numeral show_nat_10000000)

lemma adaToLovelace_10: "adaToLovelace (Str ''10'') = ''10000000''"
  using lovelace_of_10 by (simp add: adaToLovelace_def Number_def Number_10)

section \<open>Printing and reading back a natural number\<close>

lemma digit_char:
  assumes "d < 10"
  shows "isDigit (''0123456789'' ! d)" and "(of_char (''0123456789'' ! d) :: nat) - 48 = d"
proof -
  from assms have "d = 0 \<or> d = 1 \<or> d = 2 \<or> d = 3 \<or> d = 4 \<or> d = 5 \<or> d = 6
    \<or> d = 7 \<or> d = 8 \<or> d = 9" by arith
  then have "isDigit (''0123456789'' ! d) \<and> (of_char (''0123456789'' ! d) :: nat) - 48 = d"
    by (elim disjE) (simp_all add: isDigit_def)
  then show "isDigit (''0123456789'' ! d)" and "(of_char (''0123456789'' ! d) :: nat) - 48 = d"
    by simp_all
qed

lemma show_nat_digits: "list_all isDigit (show_nat n)"
proof (induction n rule: show_nat.induct)
  case (1 n)
  show ?case
  proof (cases "n < 10")
    case True
    then show ?thesis by (subst show_nat.simps) (simp add: digit_char)
  next
    case False
    then show ?thesis using "1.IH" by (subst show_nat.simps) (simp add: digit_char)
  qed
qed

lemma show_nat_nonempty: "show_nat n \<noteq> []"
  by (subst show_nat.simps) simp

lemma digitsVal_snoc: "digitsVal (ds @ [c]) = 10 * digitsVal ds + (of_char c - 48)"
  by (simp add: digitsVal_def)

lemma digitsVal_show_nat: "digitsVal (show_nat n) = n"
proof (induction n rule: show_nat.induct)
  case (1 n)
  show ?case
  proof (cases "n < 10")
    case True
    then show ?thesis by (subst show_nat.simps) (simp add: digitsVal_def digit_char)
  next
    case False
    then show ?thesis
      using "1.IH" by (subst show_nat.simps) (simp add: digitsVal_snoc digit_char)
  qed
qed

lemma isDigit_not_other:
  assumes "isDigit c"
  shows "\<not> isWhiteSpace c" "c \<noteq> CHR ''+''" "c \<noteq> CHR ''-''" "c \<noteq> CHR ''.''" "c \<noteq> CHR ''I''"
    "c \<noteq> CHR ''x''" "c \<noteq> CHR ''X''" "c \<noteq> CHR ''o''" "c \<noteq> CHR ''O''" "c \<noteq> CHR ''b''" "c \<noteq> CHR ''B''"
  using assms by (auto simp: isDigit_def isWhiteSpace_def)

text \<open>\<^verbatim>\<open>Number\<close> on a non-empty string of decimal digits: its value, rounded.\<close>

lemma StringToNumber_digits:
  assumes "list_all isDigit ds" "ds \<noteq> []"
  shows "StringToNumber ds = fl (of_nat (digitsVal ds))"
proof -
  obtain c r where ds: "ds = c # r" using assms(2) by (cases ds) auto
  have all: "\<forall>x \<in> set ds. isDigit x" using assms(1) by (simp add: list_all_iff)
  have c: "isDigit c" using all ds by simp
  have l: "isDigit (last ds)" using all assms(2) by simp
  have tw: "takeWhile isDigit ds = ds" "dropWhile isDigit ds = []"
    using all by (simp_all add: takeWhile_eq_all_conv)
  have "dropWhile isWhiteSpace ds = ds"
    using c isDigit_not_other(1) by (simp add: ds)
  moreover have "dropWhile isWhiteSpace (rev ds) = rev ds"
    using l isDigit_not_other(1) [OF l] assms(2)
    by (cases "rev ds") (simp_all add: last_rev [symmetric] hd_rev)
  ultimately have tr: "trim ds = ds" by (simp add: trim_def)
  have nd: "nonDecimalLiteral ds = None"
  proof (cases r)
    case Nil
    then show ?thesis by (simp add: nonDecimalLiteral_def ds)
  next
    case (Cons c2 r2)
    then have "isDigit c2" using all ds by simp
    from isDigit_not_other [OF this] show ?thesis
      by (simp add: nonDecimalLiteral_def ds Cons)
  qed
  have inf: "take 8 ds \<noteq> ''Infinity''"
    using isDigit_not_other(5) [OF c] by (auto simp: ds)
  have su: "scanUnsigned ds = Some (MFin (of_nat (digitsVal ds)), [])"
    using inf assms(2) by (simp add: scanUnsigned_def tw Let_def)
  have ss: "scanSigned ds = Some (False, MFin (of_nat (digitsVal ds)), [])"
    using isDigit_not_other(2,3) [OF c] su by (simp add: scanSigned_def ds)
  show ?thesis
    using assms(2) by (simp add: StringToNumber_def tr nd ss roundMV_def Let_def)
qed

lemma StringToNumber_show_nat: "StringToNumber (show_nat n) = fl (of_nat n)"
  using StringToNumber_digits [OF show_nat_digits show_nat_nonempty, of n]
  by (simp add: digitsVal_show_nat)

text \<open>
  On a string that is one decimal literal from its first to its last character (no
  white space around it), \<^verbatim>\<open>Number\<close> and \<^verbatim>\<open>parseFloat\<close> read the same number.
\<close>

lemma decimal_literal_same:
  assumes "scanSigned s = Some (neg, v, [])" "\<not> isWhiteSpace (hd s)" "\<not> isWhiteSpace (last s)"
  shows "StringToNumber s = parseFloat s"
proof -
  have ne: "s \<noteq> []" using assms(1) by (auto simp: scanSigned_def)
  have t1: "trimStart s = s" using ne assms(2) by (cases s) (simp_all add: trimStart_def)
  have "dropWhile isWhiteSpace (rev s) = rev s"
    using ne assms(3) by (cases "rev s") (simp_all add: last_rev [symmetric] hd_rev)
  then have t2: "trim s = s" using t1 by (simp add: trim_def trimStart_def)
  have nd: "nonDecimalLiteral s = None"
  proof (rule ccontr)
    assume "nonDecimalLiteral s \<noteq> None"
    then obtain c ds where s: "s = CHR ''0'' # c # ds"
      and c: "c = CHR ''x'' \<or> c = CHR ''X'' \<or> c = CHR ''o'' \<or> c = CHR ''O'' \<or> c = CHR ''b'' \<or> c = CHR ''B''"
      by (auto simp: nonDecimalLiteral_def split: list.splits if_splits)
    have d: "\<not> isDigit c" "c \<noteq> CHR ''.''" "c \<noteq> CHR ''e''" "c \<noteq> CHR ''E''"
      using c by (auto simp: isDigit_def)
    have z: "isDigit (CHR ''0'')" by (simp add: isDigit_def)
    have tw: "takeWhile isDigit s = ''0''" "dropWhile isDigit s = c # ds"
      using z d(1) by (simp_all add: s)
    have "scanUnsigned s = Some (MFin (of_nat (digitsVal ''0'')), c # ds)"
      using d(2,3,4) by (simp add: scanUnsigned_def tw scanExponent_def pow10_def Let_def) (simp add: s)
    then have "scanSigned s = Some (False, MFin (of_nat (digitsVal ''0'')), c # ds)"
      by (simp add: scanSigned_def s)
    then show False using assms(1) by simp
  qed
  show ?thesis
    using ne by (simp add: StringToNumber_def parseFloat_def t1 t2 nd assms(1) Let_def)
qed

lemma scanSigned_digits:
  assumes "list_all isDigit ds" "ds \<noteq> []"
  shows "scanSigned ds = Some (False, MFin (of_nat (digitsVal ds)), [])"
    and "\<not> isWhiteSpace (hd ds)" and "\<not> isWhiteSpace (last ds)"
proof -
  obtain c r where ds: "ds = c # r" using assms(2) by (cases ds) auto
  have all: "\<forall>x \<in> set ds. isDigit x" using assms(1) by (simp add: list_all_iff)
  have c: "isDigit c" using all ds by simp
  have l: "isDigit (last ds)" using all assms(2) by simp
  have tw: "takeWhile isDigit ds = ds" "dropWhile isDigit ds = []"
    using all by (simp_all add: takeWhile_eq_all_conv)
  have inf: "take 8 ds \<noteq> ''Infinity''"
    using isDigit_not_other(5) [OF c] by (auto simp: ds)
  have su: "scanUnsigned ds = Some (MFin (of_nat (digitsVal ds)), [])"
    using inf assms(2) by (simp add: scanUnsigned_def tw Let_def)
  show "scanSigned ds = Some (False, MFin (of_nat (digitsVal ds)), [])"
    using isDigit_not_other(2,3) [OF c] su by (simp add: scanSigned_def ds)
  show "\<not> isWhiteSpace (hd ds)" using isDigit_not_other(1) [OF c] by (simp add: ds)
  show "\<not> isWhiteSpace (last ds)" using isDigit_not_other(1) [OF l] .
qed

lemma parseFloat_show_nat: "parseFloat (show_nat n) = fl (of_nat n)"
  using decimal_literal_same [OF scanSigned_digits [OF show_nat_digits show_nat_nonempty], of n]
    StringToNumber_show_nat [of n]
  by simp

section \<open>The unit conversions and the validation\<close>

text \<open>The decimal digits of a natural number are a valid amount exactly in the range.\<close>

lemma isValidAdaAmount_show_nat: "isValidAdaAmount (show_nat n) \<longleftrightarrow> 0 < n \<and> n \<le> 45000000"
proof (cases "n < 2 ^ 53")
  case True
  have "(of_nat n :: rat) \<le> of_nat 45000000 \<longleftrightarrow> n \<le> 45000000" by (simp only: of_nat_le_iff)
  then have "(of_nat n :: rat) \<le> 45000000 \<longleftrightarrow> n \<le> 45000000" by simp
  then show ?thesis
    using fl_nat [OF True]
    by (simp add: isValidAdaAmount_def parseFloat_show_nat isNaN_def num_gt_def num_le_def
        num_lt_def not_less)
next
  case False
  then have big: "\<not> n \<le> 45000000" by simp
  have "2 ^ 53 \<le> n" using False by simp
  then have "(of_nat (2 ^ 53) :: rat) \<le> of_nat n" by (simp only: of_nat_le_iff)
  then have ge: "(2 ^ 53 :: rat) \<le> of_nat n" by simp
  have "\<not> isValidAdaAmount (show_nat n)"
  proof (cases "fl (of_nat n)")
    case (Fin v)
    from fl_large [OF ge Fin] have "\<not> v \<le> 45000000" by simp
    then show ?thesis
      by (simp add: isValidAdaAmount_def parseFloat_show_nat Fin num_le_def num_lt_def not_less)
  qed (simp_all add: isValidAdaAmount_def parseFloat_show_nat isNaN_def num_gt_def num_le_def
        num_lt_def)
  then show ?thesis using big by simp
qed


text \<open>
  What the validation computes: \<^verbatim>\<open>isValidAdaAmount(d)\<close> is true if and only if
  \<^verbatim>\<open>parseFloat(d)\<close> is a finite number strictly greater than 0 and at most the literal
  45000000 of the source line. In particular it is false when \<^verbatim>\<open>parseFloat(d)\<close> is \<^verbatim>\<open>NaN\<close>
  (no numeric prefix) or infinite, and the decimal digits of a natural number \<open>n\<close> are
  accepted exactly when \<open>0 < n \<le> 45000000\<close>.
\<close>

lemma isValidAdaAmount_iff:
  "(isValidAdaAmount d \<longleftrightarrow> (\<exists>x. parseFloat d = Fin x \<and> 0 < x \<and> x \<le> 45000000))
   \<and> (isValidAdaAmount (show_nat n) \<longleftrightarrow> 0 < n \<and> n \<le> 45000000)"
proof -
  have "isValidAdaAmount d \<longleftrightarrow> (\<exists>x. parseFloat d = Fin x \<and> 0 < x \<and> x \<le> 45000000)"
    by (cases "parseFloat d")
       (simp_all add: isValidAdaAmount_def isNaN_def num_gt_def num_le_def num_lt_def Let_def
          not_less)
  then show ?thesis using isValidAdaAmount_show_nat [of n] by simp
qed

lemma show_nat_45000000: "show_nat 45000000 = ''45000000''"
  by (simp add: show_nat.simps)

lemma show_nat_45000001: "show_nat 45000001 = ''45000001''"
  by (simp add: show_nat.simps)

text \<open>
  C1. The source line compares with the literal 45000000 and is commented
  \<^verbatim>\<open>// Max supply of ADA\<close>; the maximum supply of ADA is 45,000,000,000, so the literal
  is short of the bound its comment names. The amount \<^verbatim>\<open>"50000000"\<close> parses to a finite
  number above 0 and below the ceiling of the claim, 45,000,000,000,000 (and below the
  maximum supply), and the validation rejects it: the last amount it accepts is
  \<^verbatim>\<open>"45000000"\<close>, and \<^verbatim>\<open>"45000001"\<close> is already rejected.
\<close>

theorem isValidAdaAmount_ceiling_literal:
  "parseFloat ''50000000'' = Fin 50000000 \<and> (0 :: rat) < 50000000
   \<and> (50000000 :: rat) \<le> 45000000000000 \<and> \<not> isValidAdaAmount ''50000000''
   \<and> isValidAdaAmount ''45000000'' \<and> \<not> isValidAdaAmount ''45000001''"
proof -
  have a: "isValidAdaAmount ''45000000''"
    using isValidAdaAmount_show_nat [of 45000000] by (simp add: show_nat_45000000)
  have b: "\<not> isValidAdaAmount ''45000001''"
    using isValidAdaAmount_show_nat [of 45000001] by (simp add: show_nat_45000001)
  have c: "\<not> isValidAdaAmount ''50000000''"
    by (simp add: isValidAdaAmount_def parseFloat_50000000 isNaN_def num_gt_def num_le_def
        num_lt_def)
  show ?thesis using a b c by (simp add: parseFloat_50000000)
qed

text \<open>
  C4 (as amended). The conversions never throw: \<^verbatim>\<open>lovelaceToAda\<close> always returns (the only
  operation in it that can throw is \<^verbatim>\<open>toFixed\<close>, and 6 digits are in its range), and
  \<^verbatim>\<open>adaToLovelace\<close> contains no operation that can throw, so its model is a total function
  into strings. An input that \<^verbatim>\<open>Number\<close> reads as \<^verbatim>\<open>NaN\<close> yields the string \<^verbatim>\<open>"NaN"\<close> from
  both, and an input that \<^verbatim>\<open>parseFloat\<close> reads as \<^verbatim>\<open>NaN\<close> is not a valid amount.
\<close>

theorem conversions_never_throw:
  "(\<exists>r. lovelaceToAda a = Inr r)
   \<and> (Number a = NaN \<longrightarrow> lovelaceToAda a = Inr ''NaN'' \<and> adaToLovelace a = ''NaN'')
   \<and> (parseFloat s = NaN \<longrightarrow> \<not> isValidAdaAmount s)"
proof -
  have 1: "\<exists>r. lovelaceToAda a = Inr r"
    by (simp add: lovelaceToAda_def toFixed_def Let_def split: jsnum.splits)
  have 2: "lovelaceToAda a = Inr ''NaN''" "adaToLovelace a = ''NaN''" if "Number a = NaN"
    using that
    by (simp_all add: lovelaceToAda_def adaToLovelace_def num_div_def num_mul_def toFixed_def
        Math_floor_def numberToString_def)
  have 3: "\<not> isValidAdaAmount s" if "parseFloat s = NaN"
    using that by (simp add: isValidAdaAmount_def isNaN_def)
  show ?thesis using 1 2 3 by blast
qed

theorem conversions_never_throw_witness:
  "Number (Str ''abc'') = NaN \<and> lovelaceToAda (Str ''abc'') = Inr ''NaN''
   \<and> adaToLovelace (Str ''abc'') = ''NaN'' \<and> parseFloat ''abc'' = NaN
   \<and> \<not> isValidAdaAmount ''abc''"
  using conversions_never_throw [of "Str ''abc''" "''abc''"]
  by (simp add: Number_abc parseFloat_abc)

text \<open>
  C4 as stated fails: on the non-numeric input \<^verbatim>\<open>"abc"\<close> both conversions return
  \<^verbatim>\<open>"NaN"\<close>, not \<^verbatim>\<open>"0"\<close>.
\<close>

theorem conversions_invalid_input_counterexample:
  "adaToLovelace (Str ''abc'') = ''NaN'' \<and> adaToLovelace (Str ''abc'') \<noteq> ''0''
   \<and> lovelaceToAda (Str ''abc'') = Inr ''NaN'' \<and> lovelaceToAda (Str ''abc'') \<noteq> Inr ''0''"
  by (simp add: adaToLovelace_def lovelaceToAda_def Number_abc num_div_def num_mul_def
      toFixed_def Math_floor_def numberToString_def)

section \<open>The round trip of the unit conversions\<close>

lemma numberToString_nat:
  assumes "n \<le> 2 ^ 53"
  shows "numberToString (Fin (of_nat n)) = show_nat n"
proof -
  have "(of_nat n :: rat) \<le> of_nat (2 ^ 53)" using assms by (simp only: of_nat_le_iff)
  then have "(of_nat n :: rat) \<le> 2 ^ 53" by simp
  then show ?thesis by (simp add: numberToString_def Let_def)
qed

text \<open>
  \<^verbatim>\<open>toFixed(6)\<close> of a non-negative value below \<open>10 ^ 21\<close> depends only on the value
  scaled by \<open>10 ^ 6\<close> and rounded to the nearest integer.
\<close>

lemma toFixed6_cong:
  assumes "0 \<le> u" "0 \<le> w" "u < 10 ^ 21" "w < 10 ^ 21"
    and "\<lfloor>u * 1000000 + 1 / 2\<rfloor> = \<lfloor>w * 1000000 + 1 / 2\<rfloor>"
  shows "toFixed (Fin u) 6 = toFixed (Fin w) 6"
  using assms by (simp add: toFixed_def Let_def not_le)

lemma nat_lt_rat:
  assumes "n < 2 ^ 52"
  shows "(of_nat n :: rat) \<le> 2 ^ 52 - 1"
proof -
  have "n \<le> 2 ^ 52 - 1" using assms by simp
  then have "(of_nat n :: rat) \<le> of_nat (2 ^ 52 - 1)" by (simp only: of_nat_le_iff)
  then show ?thesis by simp
qed

text \<open>
  When the scaled amount is, after rounding, a natural number \<open>n\<close> below \<open>2 ^ 52\<close>, that
  number is the amount scaled and rounded to the nearest integer.
\<close>

lemma scaled_nearest:
  assumes "0 \<le> w" "fl (w * 1000000) = Fin (of_nat n)" "n < 2 ^ 52"
  shows "\<lfloor>w * 1000000 + 1 / 2\<rfloor> = int n" and "w < 10 ^ 21"
proof -
  have "\<lfloor>w * 1000000 + 1 / 2\<rfloor> = int n \<and> w < 10 ^ 21"
  proof (cases "w = 0")
    case True
    then have "n = 0" using assms(2) by simp
    then show ?thesis using True by (simp add: floor_half)
  next
    case False
    define y where "y = w * 1000000"
    have ypos: "0 < y" using False assms(1) by (simp add: y_def)
    have nr: "(of_nat n :: rat) \<le> 2 ^ 52 - 1" using assms(3) by (rule nat_lt_rat)
    have ylt: "y < 2 ^ 53"
    proof (rule ccontr)
      assume "\<not> y < 2 ^ 53"
      then have "2 ^ 53 \<le> y" by simp
      from fl_large [OF this] assms(2) have "(2 ^ 53 :: rat) \<le> of_nat n" by (simp add: y_def)
      then show False using nr by simp
    qed
    from fl_small [OF ypos ylt] assms(2)
    have err: "\<bar>of_nat n - y\<bar> \<le> y / 2 ^ 53 + 1 / 2 ^ 128" by (auto simp: y_def)
    have half: "\<bar>of_nat n - y\<bar> < 1 / 2" using err nr by (simp add: abs_if split: if_splits)
    have "\<lfloor>y + 1 / 2\<rfloor> = int n"
      by (rule floor_unique) (use half in \<open>simp_all add: abs_if split: if_splits\<close>)
    moreover have "w < 10 ^ 21" using ylt by (simp add: y_def)
    ultimately show ?thesis by (simp add: y_def)
  qed
  then show "\<lfloor>w * 1000000 + 1 / 2\<rfloor> = int n" and "w < 10 ^ 21" by simp_all
qed

text \<open>The display form of \<open>n\<close> base units is the six-digit form of \<open>n / 10 ^ 6\<close>.\<close>

lemma lovelaceToAda_show_nat:
  assumes "n < 2 ^ 52" "0 \<le> w" "w < 10 ^ 21" "\<lfloor>w * 1000000 + 1 / 2\<rfloor> = int n"
  shows "lovelaceToAda (Str (show_nat n)) = toFixed (Fin w) 6"
proof -
  have n53: "n < 2 ^ 53" using assms(1) by (rule less_trans) simp
  have num: "Number (Str (show_nat n)) = Fin (of_nat n)"
    using fl_nat [OF n53] by (simp add: Number_def StringToNumber_show_nat)
  have nr: "(of_nat n :: rat) \<le> 2 ^ 52 - 1" using assms(1) by (rule nat_lt_rat)
  have "\<exists>u. fl (of_nat n / 1000000) = Fin u \<and> 0 \<le> u \<and> u < 10 ^ 21
             \<and> \<lfloor>u * 1000000 + 1 / 2\<rfloor> = int n"
  proof (cases "n = 0")
    case True
    then show ?thesis by (simp add: floor_half)
  next
    case False
    define z :: rat where "z = of_nat n / 1000000"
    have "(0 :: rat) < of_nat n" using False by simp
    then have zpos: "0 < z" by (simp add: z_def)
    have zlt: "z < 2 ^ 53" using nr by (simp add: z_def)
    from fl_small [OF zpos zlt] obtain u where
      u: "fl z = Fin u" "0 \<le> u" "\<bar>u - z\<bar> \<le> z / 2 ^ 53 + 1 / 2 ^ 128" by blast
    have zn: "z * 1000000 = of_nat n" by (simp add: z_def)
    have half: "\<bar>u * 1000000 - of_nat n\<bar> < 1 / 2"
      using u(3) nr zn by (simp add: abs_if split: if_splits)
    have "\<lfloor>u * 1000000 + 1 / 2\<rfloor> = int n"
      by (rule floor_unique) (use half in \<open>simp_all add: abs_if split: if_splits\<close>)
    moreover have "u < 10 ^ 21" using u(3) zlt by (simp add: abs_if split: if_splits)
    ultimately show ?thesis using u(1,2) by (auto simp: z_def)
  qed
  then obtain u where u: "fl (of_nat n / 1000000) = Fin u" "0 \<le> u" "u < 10 ^ 21"
    "\<lfloor>u * 1000000 + 1 / 2\<rfloor> = int n" by blast
  have "lovelaceToAda (Str (show_nat n)) = toFixed (Fin u) 6"
    by (simp add: lovelaceToAda_def num num_div_def u(1) Let_def)
  also have "\<dots> = toFixed (Fin w) 6"
    using u(2) assms(2) u(3) assms(3) by (rule toFixed6_cong) (simp add: u(4) assms(4))
  finally show ?thesis .
qed

lemma Number_5: "Number (Str ''5'') = Fin 5"
  by (simp add: scan_defs fl_numeral)

lemma Number_5000000: "Number (Str ''5000000'') = Fin 5000000"
  by (simp add: scan_defs fl_numeral)

lemma scale_5: "num_mul (Fin 5) (Fin 1000000) = Fin (of_nat 5000000)"
  by (simp add: num_mul_def fl_numeral)

lemma adaToLovelace_5: "adaToLovelace (Str ''5'') = ''5000000''"
  using scale_5
  by (simp add: adaToLovelace_def Number_5 Math_floor_def numberToString_def show_nat_5000000)

lemma toFixed_5: "toFixed (Fin 5) 6 = Inr ''5.000000''"
  by (simp add: toFixed_def Let_def floor_half show_nat_5000000)

lemma lovelaceToAda_5000000: "lovelaceToAda (Str ''5000000'') = Inr ''5.000000''"
  by (simp add: lovelaceToAda_def Number_5000000 num_div_def fl_numeral toFixed_5)

lemma round_trip_general:
  assumes "Number x = Fin w" "0 \<le> w"
    and "num_mul (Fin w) (Fin 1000000) = Fin (of_nat n)" "n < 2 ^ 52"
  shows "adaToLovelace x = show_nat n"
    and "\<lfloor>w * 1000000 + 1 / 2\<rfloor> = int n"
    and "lovelaceToAda (Str (adaToLovelace x)) = toFixed (Fin w) 6"
proof -
  have p: "fl (w * 1000000) = Fin (of_nat n)" using assms(3) by (simp add: num_mul_def)
  have n53: "n \<le> 2 ^ 53" using assms(4) by (rule less_imp_le [OF less_trans]) simp
  show a: "adaToLovelace x = show_nat n"
    using numberToString_nat [OF n53]
    by (simp add: adaToLovelace_def assms(1,3) Math_floor_def)
  note sn = scaled_nearest [OF assms(2) p assms(4)]
  show "\<lfloor>w * 1000000 + 1 / 2\<rfloor> = int n" by (rule sn(1))
  show "lovelaceToAda (Str (adaToLovelace x)) = toFixed (Fin w) 6"
    unfolding a using assms(4,2) sn(2,1) by (rule lovelaceToAda_show_nat)
qed

text \<open>Appending zeros to the digits of a positive number multiplies it by ten.\<close>

lemma show_nat_times10:
  assumes "0 < n"
  shows "show_nat (n * 10) = show_nat n @ ''0''"
  using assms by (subst show_nat.simps) simp

lemma show_nat_million:
  assumes "0 < k"
  shows "show_nat (k * 1000000) = show_nat k @ ''000000''"
proof -
  have "k * 1000000 = k * 10 * 10 * 10 * 10 * 10 * 10" by simp
  then show ?thesis using assms by (simp only: show_nat_times10 mult_pos_pos zero_less_numeral) simp
qed

text \<open>
  \<^verbatim>\<open>toFixed(6)\<close> of a non-negative value below \<open>10 ^ 21\<close>, from the value scaled by
  \<open>10 ^ 6\<close> and rounded to the nearest integer \<open>n\<close>.
\<close>

lemma toFixed6_nat:
  assumes "0 \<le> v" "v < 10 ^ 21" "\<lfloor>v * 1000000 + 1 / 2\<rfloor> = int n"
  shows "toFixed (Fin v) 6 =
           Inr (let m0 = show_nat n;
                    m = (if length m0 \<le> 6 then replicate (7 - length m0) (CHR ''0'') @ m0 else m0)
                in take (length m - 6) m @ ''.'' @ drop (length m - 6) m)"
  using assms by (simp add: toFixed_def Let_def not_le)

text \<open>A whole number printed with six fraction digits.\<close>

lemma toFixed_whole:
  assumes "k < 2 ^ 53"
  shows "toFixed (Fin (of_nat k)) 6 = Inr (show_nat k @ ''.000000'')"
proof -
  have "(of_nat k :: rat) < of_nat (2 ^ 53)" using assms by (simp only: of_nat_less_iff)
  then have lt: "(of_nat k :: rat) < 10 ^ 21" by simp
  have fl: "\<lfloor>(of_nat k :: rat) * 1000000 + 1 / 2\<rfloor> = int (k * 1000000)"
    by (rule floor_unique) simp_all
  have nn: "(0 :: rat) \<le> of_nat k" by simp
  note tf = toFixed6_nat [OF nn lt fl]
  show ?thesis
  proof (cases "k = 0")
    case True
    have "show_nat 0 = ''0''" by (simp add: show_nat.simps)
    moreover have "replicate 6 (CHR ''0'') = ''000000''" by (simp add: numeral_eq_Suc)
    ultimately show ?thesis using True tf by (simp add: Let_def)
  next
    case False
    then have k: "0 < k" by simp
    have ne: "show_nat k \<noteq> []" by (rule show_nat_nonempty)
    show ?thesis
      using ne tf by (simp add: Let_def show_nat_million [OF k])
  qed
qed

text \<open>
  Every whole amount below 4,503,599,627 display units comes back as itself with six
  zeros after the point.
\<close>

lemma round_trip_whole:
  assumes "k < 4503599627"
  shows "adaToLovelace (Str (show_nat k)) = show_nat (k * 1000000)"
    and "lovelaceToAda (Str (adaToLovelace (Str (show_nat k)))) = Inr (show_nat k @ ''.000000'')"
proof -
  have k53: "k < 2 ^ 53" using assms by simp
  have n52: "k * 1000000 < 2 ^ 52" using assms by simp
  have n53: "k * 1000000 < 2 ^ 53" using assms by simp
  have num: "Number (Str (show_nat k)) = Fin (of_nat k)"
    using fl_nat [OF k53] by (simp add: Number_def StringToNumber_show_nat)
  have "fl (of_nat (k * 1000000)) = Fin (of_nat (k * 1000000))" using n53 by (rule fl_nat)
  then have mul: "num_mul (Fin (of_nat k)) (Fin 1000000) = Fin (of_nat (k * 1000000))"
    by (simp add: num_mul_def)
  have w: "(0 :: rat) \<le> of_nat k" by simp
  show "adaToLovelace (Str (show_nat k)) = show_nat (k * 1000000)"
    using num w mul n52 by (rule round_trip_general(1))
  have "lovelaceToAda (Str (adaToLovelace (Str (show_nat k)))) = toFixed (Fin (of_nat k)) 6"
    using num w mul n52 by (rule round_trip_general(3))
  then show "lovelaceToAda (Str (adaToLovelace (Str (show_nat k)))) = Inr (show_nat k @ ''.000000'')"
    by (simp add: toFixed_whole [OF k53])
qed

text \<open>
  The rounding evaluated: a value between \<open>2 ^ e\<close> and \<open>2 ^ (e + 1)\<close> in the normal range
  rounds to the multiple of \<open>2 ^ (e - 52)\<close> nearest to it.
\<close>

lemma round_half_even_eval:
  assumes "of_int k - 1 / 2 < y" "y < of_int k + 1 / 2"
  shows "round_half_even y = k"
proof -
  have "\<bar>of_int (round_half_even y) - y\<bar> \<le> 1 / 2" by (rule round_half_even_err)
  then have "\<bar>(of_int (round_half_even y) :: rat) - of_int k\<bar> < 1" using assms by linarith
  then have "\<bar>(of_int (round_half_even y - k) :: rat)\<bar> < of_int 1" by simp
  then have "\<bar>round_half_even y - k\<bar> < 1" by (simp only: of_int_abs [symmetric] of_int_less_iff)
  then show ?thesis by simp
qed

lemma fl_eval:
  assumes "pow2 e \<le> x" "x < pow2 (e + 1)" "- 1022 \<le> e" "e \<le> 1022"
    and "round_half_even (x / pow2 (e - 52)) = m"
  shows "fl x = Fin (of_int m * pow2 (e - 52))"
proof -
  have xpos: "0 < x" using assms(1) pow2_pos [of e] by linarith
  have il: "ilog2 x = e" using assms(1,2) by (rule ilog2_unique)
  have mx: "max (- 1074) (ilog2 x - 52) = e - 52" using assms(3) by (simp add: il)
  have "e + 1 = 53 + (e - 52)" by arith
  then have "pow2 (e + 1) = pow2 (53 + (e - 52))" by (rule arg_cong)
  then have split: "pow2 (e + 1) = pow2 53 * pow2 (e - 52)" by (simp only: pow2_add)
  have "x / pow2 (e - 52) < pow2 (e + 1) / pow2 (e - 52)"
    using assms(2) by (simp add: divide_strict_right_mono)
  then have "x / pow2 (e - 52) \<le> of_int (2 ^ 53)" by (simp add: split pow2_53)
  then have "m \<le> 2 ^ 53" using assms(5) round_half_even_le by blast
  then have "(of_int m :: rat) \<le> of_int (2 ^ 53)" by (simp only: of_int_le_iff)
  then have "(of_int m :: rat) \<le> pow2 53" by (simp add: pow2_53)
  then have "of_int m * pow2 (e - 52) \<le> pow2 53 * pow2 (e - 52)"
    by (simp add: mult_right_mono)
  also have "\<dots> = pow2 (e + 1)" by (simp only: split)
  also have "\<dots> \<le> pow2 1023" using assms(4) by (intro pow2_mono) simp
  also have "\<dots> < pow2 1024" by (intro pow2_strict_mono) simp
  finally have "\<not> pow2 1024 \<le> of_int m * pow2 (e - 52)" by simp
  then show ?thesis
    using fl_pos_unfold [OF xpos] by (simp add: mx assms(5))
qed

text \<open>
  The amount \<^verbatim>\<open>"8.2"\<close>: the number nearest to 8.2 is just below it, its product with
  1000000 rounds to \<open>8200000 - 2 ^ (- 30)\<close>, and \<^verbatim>\<open>Math.floor\<close> cuts that down to 8199999.
\<close>

lemma Number_8_2: "Number (Str ''8.2'') = Fin (2308094809027379 / 281474976710656)"
proof -
  have r: "round_half_even (41 / 5 / pow2 (3 - 52)) = 4616189618054758"
    by (rule round_half_even_eval) (simp_all add: pow2_def)
  have "Number (Str ''8.2'') = fl (41 / 5)" by (simp add: scan_defs)
  also have "\<dots> = Fin (of_int 4616189618054758 * pow2 (3 - 52))"
    using _ _ _ _ r by (rule fl_eval) (simp_all add: pow2_def)
  finally show ?thesis by (simp add: pow2_def)
qed

lemma scale_8_2:
  "num_mul (Fin (2308094809027379 / 281474976710656)) (Fin 1000000)
     = Fin (8804682956799999 / 1073741824)"
proof -
  have r: "round_half_even (2308094809027379 / 281474976710656 * 1000000 / pow2 (22 - 52))
             = 8804682956799999"
    by (rule round_half_even_eval) (simp_all add: pow2_def)
  have "fl (2308094809027379 / 281474976710656 * 1000000)
          = Fin (of_int 8804682956799999 * pow2 (22 - 52))"
    using _ _ _ _ r by (rule fl_eval) (simp_all add: pow2_def)
  then show ?thesis by (simp add: num_mul_def pow2_def)
qed

lemma show_nat_8199999: "show_nat 8199999 = ''8199999''"
  by (simp add: show_nat.simps)

lemma show_nat_8200000: "show_nat 8200000 = ''8200000''"
  by (simp add: show_nat.simps)

lemma adaToLovelace_8_2: "adaToLovelace (Str ''8.2'') = ''8199999''"
proof -
  have f: "\<lfloor>8804682956799999 / 1073741824 :: rat\<rfloor> = 8199999" by (rule floor_unique) simp_all
  have "adaToLovelace (Str ''8.2'')
          = numberToString (Math_floor (Fin (8804682956799999 / 1073741824)))"
    by (simp only: adaToLovelace_def Number_8_2 scale_8_2 Let_def)
  also have "\<dots> = numberToString (Fin (of_nat 8199999))" by (simp add: Math_floor_def f)
  also have "\<dots> = show_nat 8199999" by (rule numberToString_nat) simp
  finally show ?thesis by (simp only: show_nat_8199999)
qed

lemma toFixed_8_2: "toFixed (Number (Str ''8.2'')) 6 = Inr ''8.200000''"
proof -
  have f: "\<lfloor>(2308094809027379 / 281474976710656 :: rat) * 1000000 + 1 / 2\<rfloor> = int 8200000"
    by (rule floor_unique) simp_all
  have "toFixed (Fin (2308094809027379 / 281474976710656)) 6 = Inr ''8.200000''"
    by (subst toFixed6_nat [OF _ _ f]) (simp_all add: Let_def show_nat_8200000)
  then show ?thesis by (simp only: Number_8_2)
qed

lemma lovelaceToAda_8199999: "lovelaceToAda (Str ''8199999'') = Inr ''8.199999''"
proof -
  have f: "\<lfloor>(8199999 / 1000000 :: rat) * 1000000 + 1 / 2\<rfloor> = int 8199999"
    by (rule floor_unique) simp_all
  have n: "(8199999 :: nat) < 2 ^ 52" by simp
  have w: "(0 :: rat) \<le> 8199999 / 1000000" "(8199999 / 1000000 :: rat) < 10 ^ 21" by simp_all
  have "lovelaceToAda (Str (show_nat 8199999)) = toFixed (Fin (8199999 / 1000000)) 6"
    using n w f by (rule lovelaceToAda_show_nat)
  also have "\<dots> = Inr ''8.199999''"
    by (subst toFixed6_nat [OF w f]) (simp add: Let_def show_nat_8199999)
  finally show ?thesis by (simp only: show_nat_8199999)
qed

text \<open>
  C5. The two examples of the claim hold: \<^verbatim>\<open>adaToLovelace("5")\<close> is \<^verbatim>\<open>"5000000"\<close> and
  \<^verbatim>\<open>lovelaceToAda("5000000")\<close> is \<^verbatim>\<open>"5.000000"\<close>. The round trip does not hold for every
  amount with at most six fraction digits: \<^verbatim>\<open>"8.2"\<close> printed with six fraction digits is
  \<^verbatim>\<open>"8.200000"\<close>, but the product computed by \<^verbatim>\<open>adaToLovelace\<close> is
  \<open>8200000 - 2 ^ (- 30)\<close>, \<^verbatim>\<open>Math.floor\<close> takes it to 8199999, and the round trip gives
  \<^verbatim>\<open>"8.199999"\<close>: one base unit is lost. (\<open>round_trip_general\<close> above gives the amounts
  on which the round trip does hold: those whose computed product is an integer.)
\<close>

theorem conversion_round_trip_loses_unit:
  "num_mul (Number (Str ''8.2'')) (Fin 1000000) = Fin (8804682956799999 / 1073741824)
   \<and> adaToLovelace (Str ''8.2'') = ''8199999''
   \<and> lovelaceToAda (Str (adaToLovelace (Str ''8.2''))) = Inr ''8.199999''
   \<and> toFixed (Number (Str ''8.2'')) 6 = Inr ''8.200000''
   \<and> adaToLovelace (Str ''5'') = ''5000000''
   \<and> lovelaceToAda (Str ''5000000'') = Inr ''5.000000''"
proof -
  have "num_mul (Number (Str ''8.2'')) (Fin 1000000) = Fin (8804682956799999 / 1073741824)"
    by (simp only: Number_8_2 scale_8_2)
  moreover have "lovelaceToAda (Str (adaToLovelace (Str ''8.2''))) = Inr ''8.199999''"
    by (simp only: adaToLovelace_8_2 lovelaceToAda_8199999)
  ultimately show ?thesis
    using adaToLovelace_8_2 toFixed_8_2 adaToLovelace_5 lovelaceToAda_5000000 by simp
qed

section \<open>The staking operation\<close>

lemma handleStake_noop:
  assumes "wallet s = None \<or> selectedPool s = None"
  shows "handleStake s = (s, [])"
  using assms by (auto simp: handleStake_def split: option.splits)

lemma sendFunds_ok:
  assumes "a = numberToString (Math_floor (num_mul (parseFloat amt) (Fin 1000000)))"
    and "sendLovelace w r a = Inr u0" "build w [(r, a)] = Inr u"
    and "signTx w u = Inr sg" "submitTx w sg = Inr h"
  shows "sendFunds w r amt = ([SendLovelace r a, Build, SignTx u, SubmitTx sg], Inr h)"
  using assms by (simp add: sendFunds_def Let_def)

lemma sendFunds_result:
  "snd (sendFunds w r amt) = Inl (ErrorObj ''Failed to stake funds'')
   \<or> (\<exists>h. snd (sendFunds w r amt) = Inr h)"
  by (auto simp: sendFunds_def Let_def split: sum.splits)

lemma handleStake_success:
  assumes "wallet s = Some w" "selectedPool s = Some pool"
    and "\<not> isNaN (parseFloat (stakeAmount s))" "\<not> num_lt (parseFloat (stakeAmount s)) (Fin 5)"
    and "signData w (name pool) = Inr sig"
    and "sendFunds w PREDEFINED_ADDRESS (stakeAmount s) = (t, Inr h)"
  shows "snd (handleStake s) = SignData (name pool) # t @ [GetLovelace]"
    and "stakeAmount (fst (handleStake s)) = []"
    and "Dash.error (fst (handleStake s)) = None"
    and "success (fst (handleStake s))
         = Some (''Successfully staked '' @ stakeAmount s @ '' ADA to '' @ name pool)"
  using assms
  by (auto simp: handleStake_def stakeFailed_def signMessage_def fetchBalance_def Let_def
      split: sum.splits prod.splits)

lemma handleStake_error_iff:
  assumes "wallet s = Some w" "selectedPool s = Some pool"
  shows "Dash.error (fst (handleStake s)) \<noteq> None \<longleftrightarrow>
           isNaN (parseFloat (stakeAmount s)) \<or> num_lt (parseFloat (stakeAmount s)) (Fin 5)
           \<or> (\<exists>e. signData w (name pool) = Inl e)
           \<or> (\<exists>e. snd (sendFunds w PREDEFINED_ADDRESS (stakeAmount s)) = Inl e)"
  using assms
  by (auto simp: handleStake_def stakeFailed_def signMessage_def fetchBalance_def Let_def
      split: sum.splits prod.splits)

lemma handleStake_cases:
  assumes "wallet s = Some w" "selectedPool s = Some pool"
  shows "(Dash.error (fst (handleStake s)) \<noteq> None \<and> success (fst (handleStake s)) = None
            \<and> stakeAmount (fst (handleStake s)) = stakeAmount s)
         \<or> (Dash.error (fst (handleStake s)) = None \<and> success (fst (handleStake s)) \<noteq> None
            \<and> stakeAmount (fst (handleStake s)) = [])"
  using assms
  by (auto simp: handleStake_def stakeFailed_def signMessage_def fetchBalance_def Let_def
      split: sum.splits prod.splits)

lemma demoDash_simps [simp]:
  "wallet (demoDash a) = Some demoWallet" "selectedPool (demoDash a) = Some demoPool"
  "stakeAmount (demoDash a) = a" "Dash.error (demoDash a) = None" "success (demoDash a) = None"
  by (simp_all add: demoDash_def)

lemma demoWallet_simps [simp]:
  "signData demoWallet m = Inr ''signature''" "sendLovelace demoWallet r a = Inr ()"
  "build demoWallet outs = Inr ''unsigned''" "signTx demoWallet u = Inr ''signed''"
  "submitTx demoWallet t = Inr ''txhash''"
  by (simp_all add: demoWallet_def)

lemma demoPool_name [simp]: "name demoPool = ''Pool One''"
  by (simp add: demoPool_def)

text \<open>
  C2. With a wallet and a pool selected, every amount that \<^verbatim>\<open>parseFloat\<close> reads as \<^verbatim>\<open>NaN\<close>
  (non-numeric) or as a number strictly below 5 takes the submission directly to the
  failed state: the error is the below-minimum message, no success is recorded, the busy
  flag is cleared, nothing else in the state changes, and the list of wallet calls is
  empty, so neither the message signing nor any other call is reached.
\<close>

theorem handleStake_below_minimum:
  assumes "wallet s = Some w" "selectedPool s = Some pool"
    and "isNaN (parseFloat (stakeAmount s)) \<or> num_lt (parseFloat (stakeAmount s)) (Fin 5)"
  shows "handleStake s =
           (s\<lparr>Dash.error := Some ''Stake amount must be at least 5 ADA'',
              success := None, isStaking := False\<rparr>, [])"
  using assms by (auto simp: handleStake_def stakeFailed_def Let_def)

theorem handleStake_below_minimum_witness:
  "handleStake (demoDash ''4.999999'') =
     ((demoDash ''4.999999'')\<lparr>Dash.error := Some ''Stake amount must be at least 5 ADA'',
                               success := None, isStaking := False\<rparr>, [])
   \<and> num_lt (parseFloat ''4.999999'') (Fin 5)
   \<and> handleStake (demoDash ''abc'') =
     ((demoDash ''abc'')\<lparr>Dash.error := Some ''Stake amount must be at least 5 ADA'',
                          success := None, isStaking := False\<rparr>, [])
   \<and> isNaN (parseFloat ''abc'')"
  using handleStake_below_minimum [of "demoDash ''4.999999''" demoWallet demoPool]
    handleStake_below_minimum [of "demoDash ''abc''" demoWallet demoPool]
    parseFloat_4_999999_lt parseFloat_abc
  by (simp add: isNaN_def)

text \<open>
  C3. The amount field of the page is an \<^verbatim>\<open><input type="number">\<close>, and the state is
  otherwise only reset to the empty string, so the amount that reaches \<^verbatim>\<open>handleStake\<close> is
  empty or one decimal literal from its first to its last character. With a wallet and
  a pool selected and such an amount that reads as a number of at least 5, when every
  wallet call succeeds the calls made are, in this order: the signature request over the
  pool's display name; one output to the fixed destination address of
  \<^verbatim>\<open>adaToLovelace(stakeAmount)\<close> base units; build; sign; submit; and the balance refetch.
  \<^verbatim>\<open>sendFunds\<close> returns the transaction identifier that the submission returned.
\<close>

theorem handleStake_submission_order:
  assumes "wallet s = Some w" "selectedPool s = Some pool"
    and "scanSigned (stakeAmount s) = Some (neg, v, [])"
    and "\<not> isWhiteSpace (hd (stakeAmount s))" "\<not> isWhiteSpace (last (stakeAmount s))"
    and "\<not> isNaN (parseFloat (stakeAmount s))" "\<not> num_lt (parseFloat (stakeAmount s)) (Fin 5)"
    and "amt = adaToLovelace (Str (stakeAmount s))"
    and "signData w (name pool) = Inr sig"
    and "sendLovelace w PREDEFINED_ADDRESS amt = Inr ()"
    and "build w [(PREDEFINED_ADDRESS, amt)] = Inr unsignedTx"
    and "signTx w unsignedTx = Inr signedTx"
    and "submitTx w signedTx = Inr hash"
  shows "snd (handleStake s) =
           [SignData (name pool), SendLovelace PREDEFINED_ADDRESS amt, Build,
            SignTx unsignedTx, SubmitTx signedTx, GetLovelace]
         \<and> sendFunds w PREDEFINED_ADDRESS (stakeAmount s) =
             ([SendLovelace PREDEFINED_ADDRESS amt, Build, SignTx unsignedTx, SubmitTx signedTx],
              Inr hash)"
proof -
  have "StringToNumber (stakeAmount s) = parseFloat (stakeAmount s)"
    using assms(3,4,5) by (rule decimal_literal_same)
  then have a: "amt = numberToString (Math_floor (num_mul (parseFloat (stakeAmount s)) (Fin 1000000)))"
    using assms(8) by (simp add: adaToLovelace_def Number_def)
  have sf: "sendFunds w PREDEFINED_ADDRESS (stakeAmount s) =
              ([SendLovelace PREDEFINED_ADDRESS amt, Build, SignTx unsignedTx, SubmitTx signedTx],
               Inr hash)"
    using a assms(10,11,12,13) by (rule sendFunds_ok)
  have tr: "snd (handleStake s) =
              [SignData (name pool), SendLovelace PREDEFINED_ADDRESS amt, Build,
               SignTx unsignedTx, SubmitTx signedTx, GetLovelace]"
    using handleStake_success(1) [OF assms(1,2,6,7,9) sf] by simp
  show ?thesis using sf tr by blast
qed

theorem handleStake_submission_order_witness:
  "snd (handleStake (demoDash ''10'')) =
     [SignData ''Pool One'', SendLovelace PREDEFINED_ADDRESS ''10000000'', Build,
      SignTx ''unsigned'', SubmitTx ''signed'', GetLovelace]
   \<and> sendFunds demoWallet PREDEFINED_ADDRESS ''10'' =
       ([SendLovelace PREDEFINED_ADDRESS ''10000000'', Build, SignTx ''unsigned'',
         SubmitTx ''signed''], Inr ''txhash'')
   \<and> scanSigned ''10'' = Some (False, MFin 10, [])
   \<and> parseFloat ''10'' = Fin 10
   \<and> adaToLovelace (Str ''10'') = ''10000000''"
  using handleStake_submission_order [where s = "demoDash ''10''" and w = demoWallet
      and pool = demoPool and neg = False and v = "MFin 10" and amt = "''10000000''"
      and sig = "''signature''" and unsignedTx = "''unsigned''" and signedTx = "''signed''"
      and hash = "''txhash''"]
  by (simp add: scanSigned_10 adaToLovelace_10 parseFloat_10 isNaN_def num_lt_def
      isWhiteSpace_def)

text \<open>
  C9. A run that returns at the precondition check (no wallet or no pool) leaves the
  whole state, and with it the entered amount, unchanged. A run that starts ends in
  exactly one of two ways: with an error recorded, no success message and the entered
  amount unchanged; or with no error, a success message and the entered amount reset to
  the empty string. The error is recorded exactly when the validation fails, the
  message signing throws, or \<^verbatim>\<open>sendFunds\<close> (build, sign, submit) throws.
\<close>

theorem handleStake_stakeAmount:
  "(wallet s = None \<or> selectedPool s = None \<longrightarrow> fst (handleStake s) = s)
   \<and> (wallet s = Some w \<and> selectedPool s = Some pool \<longrightarrow>
        ((Dash.error (fst (handleStake s)) \<noteq> None \<and> success (fst (handleStake s)) = None
            \<and> stakeAmount (fst (handleStake s)) = stakeAmount s)
         \<or> (Dash.error (fst (handleStake s)) = None \<and> success (fst (handleStake s)) \<noteq> None
            \<and> stakeAmount (fst (handleStake s)) = []))
        \<and> (Dash.error (fst (handleStake s)) \<noteq> None \<longleftrightarrow>
             isNaN (parseFloat (stakeAmount s)) \<or> num_lt (parseFloat (stakeAmount s)) (Fin 5)
             \<or> (\<exists>e. signData w (name pool) = Inl e)
             \<or> (\<exists>e. snd (sendFunds w PREDEFINED_ADDRESS (stakeAmount s)) = Inl e)))"
  using handleStake_noop [of s] handleStake_cases [of s w pool] handleStake_error_iff [of s w pool]
  by (metis fst_conv)

theorem handleStake_stakeAmount_witness:
  "stakeAmount (fst (handleStake (demoDash ''4.999999''))) = ''4.999999''
   \<and> Dash.error (fst (handleStake (demoDash ''4.999999''))) \<noteq> None
   \<and> wallet (demoDash ''4.999999'') = Some demoWallet
   \<and> selectedPool (demoDash ''4.999999'') = Some demoPool
   \<and> fst (handleStake ((demoDash ''7'')\<lparr>wallet := None\<rparr>)) = (demoDash ''7'')\<lparr>wallet := None\<rparr>"
  using handleStake_stakeAmount [of "demoDash ''4.999999''" demoWallet demoPool]
    handleStake_stakeAmount [of "(demoDash ''7'')\<lparr>wallet := None\<rparr>" demoWallet demoPool]
    parseFloat_4_999999_lt
  by auto

section \<open>The history page\<close>

lemma demoIndexer_simps [simp]:
  "getAddressTransactions (demoIndexer txs dels) a p c = txs"
  "getAccountDelegations (demoIndexer txs dels) a = dels"
  by (simp_all add: demoIndexer_def)

lemma demoResponse_simps [simp]:
  "Response.status (demoResponse st stText header body) = st"
  "statusText (demoResponse st stText header body) = stText"
  "totalCountHeader (demoResponse st stText header body) = header"
  "json (demoResponse st stText header body) = body"
  "text_body (demoResponse st stText header body) = Inr ''body''"
  by (simp_all add: demoResponse_def)

lemma demoHistory_simps [simp]:
  "transactions demoHistory = [demoItem]" "isLoading demoHistory = False"
  "error demoHistory = None" "paymentAddress demoHistory = Some ''addr1''"
  "stakeAddress demoHistory = Some ''stake1''" "delegateHistory demoHistory = []"
  "isDelegateHistoryLoading demoHistory = False" "currentPage demoHistory = 1"
  by (simp_all add: demoHistory_def)

text \<open>The transaction fetch on a "not found" answer: an empty page, total 0, no error.\<close>

lemma fetchTransactions_not_found:
  assumes "paymentAddress s = Some addr" "addr \<noteq> []"
    and "getAddressTransactions ix addr (currentPage s) ITEMS_PER_PAGE = Inr response"
    and "Response.status response = 404"
  shows "fetchTransactions ix s =
           s\<lparr>transactions := [], totalTransactions := Fin 0, isLoading := False, error := None\<rparr>"
  using assms by (simp add: fetchTransactions_def fetchTransactions_try_def Let_def)

text \<open>
  Another non-success answer whose body is JSON: the error carries the status code.
\<close>

lemma fetchTransactions_api_error:
  assumes "paymentAddress s = Some addr" "addr \<noteq> []"
    and "getAddressTransactions ix addr (currentPage s) ITEMS_PER_PAGE = Inr response"
    and "Response.status response \<noteq> 404" "\<not> ok response" "json response = Inr errorData"
  shows "fetchTransactions ix s =
           s\<lparr>isLoading := False,
              error := Some (''API request failed: '' @ show_nat (Response.status response)
                             @ '' '' @ statusText response)\<rparr>"
  using assms
  by (simp add: fetchTransactions_def fetchTransactions_try_def handleError_def Let_def)

text \<open>A successful answer with an empty array: no items, and the total of the header.\<close>

lemma fetchTransactions_empty_page:
  assumes "paymentAddress s = Some addr" "addr \<noteq> []"
    and "getAddressTransactions ix addr (currentPage s) ITEMS_PER_PAGE = Inr response"
    and "ok response" "json response = Inr (JsonArray [])"
    and "totalCountHeader response = Some h" "h \<noteq> []"
  shows "fetchTransactions ix s =
           s\<lparr>transactions := [], totalTransactions := parseInt h 10, isLoading := False,
              error := None\<rparr>"
proof -
  have "Response.status response \<noteq> 404" using assms(4) by (auto simp: ok_def)
  then show ?thesis
    using assms
    by (simp add: fetchTransactions_def fetchTransactions_try_def Let_def)
qed

text \<open>
  C7. The claim holds on a "not found" answer and on a non-success answer with a JSON
  body (the two lemmas above), and fails on a non-success answer whose body is not JSON:
  \<^verbatim>\<open>await response.json()\<close> rejects before the error with the status code is built, and
  the message recorded is the parser's. Here the answer is 502 with a body that is not
  JSON.
\<close>

theorem fetchTransactions_error_body_not_json:
  "error (fetchTransactions
            (demoIndexer
               (Inr (demoResponse 502 ''Bad Gateway'' None
                       (Inl (ErrorObj ''Unexpected token < in JSON at position 0''))))
               (Inl NonError))
            demoHistory)
   = Some ''Unexpected token < in JSON at position 0''"
  by (simp add: fetchTransactions_def fetchTransactions_try_def handleError_def ok_def Let_def
      ITEMS_PER_PAGE_def)

text \<open>What a failed delegation fetch leaves.\<close>

lemma fetchDelegateHistory_failed:
  assumes "fetchDelegateHistory_try ix (s\<lparr>isDelegateHistoryLoading := True, error := None\<rparr>) = Inl e"
  shows "fetchDelegateHistory ix s =
           s\<lparr>error := Some (case e of ErrorObj message \<Rightarrow> message
                                     | NonError \<Rightarrow> ''An unknown error occurred''),
              delegateHistory := [], isDelegateHistoryLoading := False\<rparr>"
  using assms by (simp add: fetchDelegateHistory_def handleError_def Let_def)

text \<open>The failures of the delegation fetch, one by one.\<close>

lemma fetchDelegateHistory_try_failures:
  "stakeAddress s = None \<or> stakeAddress s = Some [] \<Longrightarrow>
     fetchDelegateHistory_try ix s = Inl (ErrorObj ''No stake address found'')"
  "stakeAddress s = Some addr \<Longrightarrow> addr \<noteq> [] \<Longrightarrow> getAccountDelegations ix addr = Inl e \<Longrightarrow>
     fetchDelegateHistory_try ix s = Inl e"
  "stakeAddress s = Some addr \<Longrightarrow> addr \<noteq> [] \<Longrightarrow> getAccountDelegations ix addr = Inr r \<Longrightarrow>
     \<not> ok r \<Longrightarrow> text_body r = Inr b \<Longrightarrow>
     fetchDelegateHistory_try ix s =
       Inl (ErrorObj (''API request failed: '' @ show_nat (Response.status r) @ '' '' @ statusText r))"
  "stakeAddress s = Some addr \<Longrightarrow> addr \<noteq> [] \<Longrightarrow> getAccountDelegations ix addr = Inr r \<Longrightarrow>
     ok r \<Longrightarrow> json r = Inl e \<Longrightarrow> fetchDelegateHistory_try ix s = Inl e"
  "stakeAddress s = Some addr \<Longrightarrow> addr \<noteq> [] \<Longrightarrow> getAccountDelegations ix addr = Inr r \<Longrightarrow>
     ok r \<Longrightarrow> json r = Inr JsonOther \<Longrightarrow>
     fetchDelegateHistory_try ix s = Inl (ErrorObj ''Unexpected API response format'')"
  by (auto simp: fetchDelegateHistory_try_def)

text \<open>
  C6 (as amended). Whenever the delegation fetch fails (its \<^verbatim>\<open>try\<close> block throws), the
  delegation list is left empty, the loading flag is cleared, the transactions fetched
  before are kept in the state, and the message of the failure is recorded in the
  page's one error state. Once the transactions have loaded, a recorded non-empty
  message makes the page render the error view in place of the transaction and
  delegation tables.
\<close>

theorem fetchDelegateHistory_failure:
  assumes "fetchDelegateHistory_try ix (s\<lparr>isDelegateHistoryLoading := True, error := None\<rparr>) = Inl e"
    and "msg = (case e of ErrorObj message \<Rightarrow> message | NonError \<Rightarrow> ''An unknown error occurred'')"
  shows "delegateHistory (fetchDelegateHistory ix s) = []
         \<and> error (fetchDelegateHistory ix s) = Some msg
         \<and> \<not> isDelegateHistoryLoading (fetchDelegateHistory ix s)
         \<and> transactions (fetchDelegateHistory ix s) = transactions s
         \<and> (\<not> isLoading s \<and> msg \<noteq> [] \<longrightarrow> render (fetchDelegateHistory ix s) = ErrorView msg)"
  unfolding fetchDelegateHistory_failed [OF assms(1)] using assms(2)
  by (simp add: render_def)

theorem fetchDelegateHistory_failure_witness:
  "delegateHistory (fetchDelegateHistory (demoIndexer (Inl NonError) (Inl NonError)) demoHistory) = []
   \<and> error (fetchDelegateHistory (demoIndexer (Inl NonError) (Inl NonError)) demoHistory)
       = Some ''An unknown error occurred''
   \<and> transactions (fetchDelegateHistory (demoIndexer (Inl NonError) (Inl NonError)) demoHistory)
       = [demoItem]
   \<and> render (fetchDelegateHistory (demoIndexer (Inl NonError) (Inl NonError)) demoHistory)
       = ErrorView ''An unknown error occurred''"
  using fetchDelegateHistory_failure [where ix = "demoIndexer (Inl NonError) (Inl NonError)"
      and s = demoHistory and e = NonError and msg = "''An unknown error occurred''"]
  by (simp add: fetchDelegateHistory_try_def)

text \<open>
  C6 as stated fails: the page shows its transaction table; the delegation fetch then
  fails with a 500 answer; the page shows the error view and no transaction table.
\<close>

theorem fetchDelegateHistory_blocks_counterexample:
  "render demoHistory = HistoryView [demoItem] []
   \<and> render (fetchDelegateHistory
               (demoIndexer (Inl NonError)
                  (Inr (demoResponse 500 ''Internal Server Error'' None (Inr JsonOther))))
               demoHistory)
     = ErrorView ''API request failed: 500 Internal Server Error''"
  by (simp add: render_def fetchDelegateHistory_def fetchDelegateHistory_try_def handleError_def
      ok_def show_nat_500 Let_def)

section \<open>Pagination\<close>

lemma parseInt_23: "parseInt ''23'' 10 = Fin 23"
  by (simp add: parseInt_def trimStart_def isWhiteSpace_def isRadixDigit_def radixDigit36_def
      radixDigitsVal_def Let_def fl_numeral)

text \<open>
  The quotient by the page size is rounded, but for a count below \<open>2 ^ 53\<close> the rounding
  never crosses an integer: the ceiling of the rounded quotient is the exact one.
\<close>

lemma ceiling_fl_div10:
  assumes "n < 2 ^ 53"
  shows "\<exists>v. fl (of_nat n / 10) = Fin v \<and> \<lceil>v\<rceil> = \<lceil>(of_nat n :: rat) / 10\<rceil>"
proof (cases "n mod 10 = 0")
  case True
  then have "10 dvd n" by (simp add: dvd_eq_mod_eq_0)
  then obtain q where q: "n = 10 * q" by (auto elim: dvdE)
  have "q < 2 ^ 53" using assms q by simp
  then have "fl (of_nat q) = Fin (of_nat q)" by (rule fl_nat)
  then show ?thesis by (simp add: q)
next
  case False
  define q where "q = n div 10"
  define r where "r = n mod 10"
  have r: "1 \<le> r" "r \<le> 9" using False by (simp_all add: r_def)
  have n: "n = 10 * q + r" by (simp add: q_def r_def)
  define x :: rat where "x = of_nat n / 10"
  have xq: "x = of_nat q + of_nat r / 10" by (simp add: x_def n)
  have "(of_nat 1 :: rat) \<le> of_nat r" using r(1) by (simp only: of_nat_le_iff)
  then have r1: "(1 :: rat) \<le> of_nat r" by simp
  have "(of_nat r :: rat) \<le> of_nat 9" using r(2) by (simp only: of_nat_le_iff)
  then have r9: "(of_nat r :: rat) \<le> 9" by simp
  have "(of_nat n :: rat) < of_nat (2 ^ 53)" using assms by (simp only: of_nat_less_iff)
  then have nlt: "(of_nat n :: rat) < 2 ^ 53" by simp
  have nge: "(1 :: rat) \<le> of_nat n" using r1 by (simp add: n)
  have xpos: "0 < x" using nge by (simp add: x_def)
  have xlt: "x < 2 ^ 53" using nlt by (simp add: x_def)
  from fl_small [OF xpos xlt] obtain v where
    v: "fl x = Fin v" "\<bar>v - x\<bar> \<le> x / 2 ^ 53 + 1 / 2 ^ 128" by blast
  have "(of_nat n :: rat) \<le> 2 ^ 53 - 1"
  proof -
    have "n \<le> 2 ^ 53 - 1" using assms by simp
    then have "(of_nat n :: rat) \<le> of_nat (2 ^ 53 - 1)" by (simp only: of_nat_le_iff)
    then show ?thesis by simp
  qed
  then have err: "\<bar>v - x\<bar> < 1 / 10" using v(2) by (simp add: x_def)
  have lo: "of_nat q < v" using err xq r1 by linarith
  have hi: "v < of_nat q + 1" using err xq r9 by linarith
  have cv: "\<lceil>v\<rceil> = int q + 1"
    by (rule ceiling_unique) (use lo hi in simp_all)
  have cx: "\<lceil>x\<rceil> = int q + 1"
    by (rule ceiling_unique) (use xq r1 r9 in simp_all)
  show ?thesis using v(1) cv cx by (simp add: x_def)
qed

lemma Math_max_int:
  "Math_max (Fin (of_int a)) (Fin (of_int b)) = Fin (of_int (max a b))"
  by (simp add: Math_max_def num_lt_def max_def)

lemma totalPages_exact:
  assumes "n < 2 ^ 53" "totalTransactions s = Fin (of_nat n)"
  shows "totalPages s = Fin (of_int (max 1 \<lceil>(of_nat n :: rat) / 10\<rceil>))"
proof -
  define c where "c = \<lceil>(of_nat n :: rat) / 10\<rceil>"
  from ceiling_fl_div10 [OF assms(1)] obtain v where
    v: "fl (of_nat n / 10) = Fin v" "\<lceil>v\<rceil> = c" unfolding c_def by blast
  have "totalPages s = Math_max (Fin (of_int 1)) (Fin (of_int c))"
    using v by (simp add: totalPages_def assms(2) ITEMS_PER_PAGE_def num_div_def Math_ceil_def)
  also have "\<dots> = Fin (of_int (max 1 c))" by (rule Math_max_int)
  finally show ?thesis by (simp only: c_def)
qed

lemma fl_not_NaN: "fl x \<noteq> NaN"
  by (simp add: fl_def Let_def)

text \<open>Whatever the total, short of \<^verbatim>\<open>NaN\<close>, the page count is at least 1.\<close>

lemma totalPages_minimum:
  assumes "totalTransactions s \<noteq> NaN"
  shows "num_le (Fin 1) (totalPages s)"
proof -
  define q where "q = num_div (totalTransactions s) (Fin (of_nat ITEMS_PER_PAGE))"
  have "q \<noteq> NaN"
    using assms fl_not_NaN
    by (cases "totalTransactions s")
       (simp_all add: q_def num_div_def ITEMS_PER_PAGE_def inf_of_sign_def num_sign_def)
  then have c: "Math_ceil q \<noteq> NaN" by (cases q) (simp_all add: Math_ceil_def)
  have "totalPages s = Math_max (Fin 1) (Math_ceil q)" by (simp add: totalPages_def q_def)
  then show ?thesis
    using c by (cases "Math_ceil q") (auto simp: Math_max_def num_le_def num_lt_def)
qed

text \<open>
  C8. For every total that is a count below \<open>2 ^ 53\<close> (the range in which a number holds
  every integer exactly) the page count the component computes is
  \<open>max 1 (ceil (total / 10))\<close>, so 3 for a total of 23; for every total at all, short of
  \<^verbatim>\<open>NaN\<close>, it is at least 1. A request whose answer is an empty array (as for a page
  beyond the last) leaves an empty item list and the total that the answer reports.
\<close>

theorem totalPages_ceiling:
  "(n < 2 ^ 53 \<and> totalTransactions s = Fin (of_nat n)
      \<longrightarrow> totalPages s = Fin (of_int (max 1 \<lceil>(of_nat n :: rat) / 10\<rceil>)))
   \<and> (totalTransactions s \<noteq> NaN \<longrightarrow> num_le (Fin 1) (totalPages s))
   \<and> (paymentAddress s = Some addr \<and> addr \<noteq> []
       \<and> getAddressTransactions ix addr (currentPage s) ITEMS_PER_PAGE = Inr response
       \<and> ok response \<and> json response = Inr (JsonArray [])
       \<and> totalCountHeader response = Some h \<and> h \<noteq> []
      \<longrightarrow> transactions (fetchTransactions ix s) = []
          \<and> totalTransactions (fetchTransactions ix s) = parseInt h 10)"
  using totalPages_exact [of n s] totalPages_minimum [of s]
    fetchTransactions_empty_page [of s addr ix response h]
  by simp

theorem totalPages_ceiling_witness:
  "totalPages (demoHistory\<lparr>totalTransactions := Fin 23\<rparr>) = Fin 3
   \<and> transactions
        (fetchTransactions
           (demoIndexer (Inr (demoResponse 200 ''OK'' (Some ''23'') (Inr (JsonArray []))))
              (Inl NonError))
           (demoHistory\<lparr>currentPage := 4\<rparr>)) = []
   \<and> totalTransactions
        (fetchTransactions
           (demoIndexer (Inr (demoResponse 200 ''OK'' (Some ''23'') (Inr (JsonArray []))))
              (Inl NonError))
           (demoHistory\<lparr>currentPage := 4\<rparr>)) = Fin 23"
proof -
  have c: "\<lceil>(23 :: rat) / 10\<rceil> = 3"
    by (rule ceiling_unique) simp_all
  show ?thesis
    using totalPages_ceiling [where n = 23 and s = "demoHistory\<lparr>totalTransactions := Fin 23\<rparr>"]
      totalPages_ceiling [where s = "demoHistory\<lparr>currentPage := 4\<rparr>" and addr = "''addr1''"
        and ix = "demoIndexer (Inr (demoResponse 200 ''OK'' (Some ''23'') (Inr (JsonArray []))))
                    (Inl NonError)"
        and response = "demoResponse 200 ''OK'' (Some ''23'') (Inr (JsonArray []))"
        and h = "''23''"]
    by (simp add: c ok_def parseInt_23)
qed

section \<open>Address formatting\<close>

lemma floor_half_int: "\<lfloor>(of_int m :: rat) / 2\<rfloor> = m div 2"
  using floor_divide_of_int_eq [of m 2, where ?'a = rat] by simp

lemma ceiling_neg_half_int: "\<lceil>- ((of_int m :: rat) / 2)\<rceil> = - (m div 2)"
  by (simp add: ceiling_def floor_half_int)

text \<open>
  For every integer \<^verbatim>\<open>maxLength\<close> from 2 up (below \<open>2 ^ 53\<close>) the function does what C10
  says: a string of at most that length is returned as it is, a longer one is cut to
  its first and its last \<open>maxLength div 2\<close> characters around the three dots. Without
  the argument the length is 16.
\<close>

lemma formatAddress_from_two:
  assumes "2 \<le> m" "m < 2 ^ 53"
  shows "formatAddress a (Some (Fin (of_int m))) =
           (if int (length a) \<le> m then a
            else take (nat (m div 2)) a @ ''...'' @ drop (length a - nat (m div 2)) a)"
proof (cases "int (length a) \<le> m")
  case True
  then have "(of_nat (length a) :: rat) \<le> of_int m"
    by (metis of_int_le_iff of_int_of_nat_eq)
  then show ?thesis using True by (simp add: formatAddress_def num_le_def num_lt_def not_less)
next
  case False
  then have "\<not> (of_nat (length a) :: rat) \<le> of_int m"
    by (metis of_int_le_iff of_int_of_nat_eq)
  then have gate: "\<not> num_le (Fin (of_nat (length a))) (Fin (of_int m))"
    by (simp add: num_le_def num_lt_def not_less)
  define h where "h = m div 2"
  have h: "1 \<le> h" "h < int (length a)" using assms(1) False by (simp_all add: h_def)
  have abs_m: "\<bar>m\<bar> < 2 ^ 53" "\<bar>- m\<bar> < 2 ^ 53" using assms by simp_all
  have pos: "\<not> (of_int m :: rat) / 2 < 0" using assms(1) by simp
  have neg: "- ((of_int m :: rat) / 2) < 0" using assms(1) by simp
  have d1: "num_div (Fin (of_int m)) (Fin 2) = Fin (of_int m / 2)"
    using fl_half_int [OF abs_m(1)] by (simp add: num_div_def)
  have d2: "num_div (num_neg (Fin (of_int m))) (Fin 2) = Fin (- (of_int m / 2))"
    using fl_half_int [OF abs_m(2)] by (simp add: num_div_def num_neg_def)
  have i0: "sliceIndex (length a) (Fin 0) = 0" by (simp add: sliceIndex_def)
  have i1: "sliceIndex (length a) (Fin (of_int m / 2)) = nat h"
    using h pos by (simp add: sliceIndex_def floor_half_int h_def [symmetric] Let_def)
  have i2: "sliceIndex (length a) (Fin (- (of_int m / 2))) = length a - nat h"
    using h neg
    by (simp add: sliceIndex_def ceiling_neg_half_int h_def [symmetric] Let_def)
  have s1: "slice a (Fin 0) (Some (Fin (of_int m / 2))) = take (nat h) a"
    by (simp add: slice_def i0 i1 Let_def)
  have s2: "slice a (Fin (- (of_int m / 2))) None = drop (length a - nat h) a"
    by (simp add: slice_def i2 Let_def)
  show ?thesis
    using False gate by (simp add: formatAddress_def d1 d2 s1 s2 h_def)
qed

lemma formatAddress_default: "formatAddress a None = formatAddress a (Some (Fin (of_int 16)))"
  by (simp add: formatAddress_def)

text \<open>
  C10. The claim fails for a \<^verbatim>\<open>maxLength\<close> of 0 or 1: \<^verbatim>\<open>maxLength / 2\<close> is then below 1,
  \<^verbatim>\<open>slice(0, 0.5)\<close> is empty as claimed, but \<^verbatim>\<open>slice(-0.5)\<close> is \<^verbatim>\<open>slice(0)\<close>, the whole
  string and not its last 0 characters: the result is the three dots followed by the
  whole address.
\<close>

theorem formatAddress_maxLength_one:
  "formatAddress ''abcdef'' (Some (Fin 1)) = ''...abcdef''
   \<and> formatAddress ''abcdef'' (Some (Fin 0)) = ''...abcdef''"
proof -
  have h: "fl (1 / 2) = Fin (1 / 2)" "fl (- (1 / 2)) = Fin (- (1 / 2))"
    using fl_half_int [of 1] fl_half_int [of "- 1"] by simp_all
  have c: "\<lceil>- (1 / 2 :: rat)\<rceil> = 0" by (rule ceiling_unique) simp_all
  have 1: "formatAddress ''abcdef'' (Some (Fin 1)) = ''...abcdef''"
    by (simp add: formatAddress_def num_le_def num_lt_def num_div_def num_neg_def h
        slice_def sliceIndex_def floor_half c Let_def)
  have 0: "formatAddress ''abcdef'' (Some (Fin 0)) = ''...abcdef''"
    by (simp add: formatAddress_def num_le_def num_lt_def num_div_def num_neg_def
        slice_def sliceIndex_def Let_def)
  show ?thesis using 1 0 by simp
qed

end
